theory Spec2Isabelle
  imports Complex_Main
begin

section \<open>Common Python notions\<close>

text \<open>
  Exceptions are values. Every function of the model that can raise returns
  \<open>error + 'a\<close>, with \<open>Inl\<close> carrying the exception.
  The arithmetic of the vector and matrix classes is duck typed, and the functions of
  the model are generic in the type \<open>'a\<close> of numbers. Two number types are used:
  \<open>pyfloat\<close>, the arithmetic of Python floats, and \<open>real\<close>, exact arithmetic, which is
  the arithmetic of Python integers and agrees with the arithmetic of floats wherever no
  operation rounds.
\<close>

datatype error =
    ValueError
  | TypeError
  | IndexError
  | ZeroDivisionError
  | NameError string
  | AttributeError string
  | KeyError string

subsection \<open>Python floats\<close>

text \<open>
  A Python float is an IEEE 754 double: a finite number \<open>m * 2^q\<close> with an integer
  \<open>m\<close> below \<open>2^53\<close> in magnitude and \<open>-1074 \<le> q \<le> 971\<close>, an infinity, or NaN. The two
  zeros compare equal and are not told apart here.
\<close>

datatype pyfloat = Finite real | PosInf | NegInf | NaN

definition pow2 :: "int \<Rightarrow> real" where
  "pow2 q = (if 0 \<le> q then 2 ^ nat q else 1 / 2 ^ nat (- q))"

text \<open>The exponent \<open>e\<close> with \<open>2^e \<le> x < 2^(e+1)\<close>, found by halving or doubling \<open>x\<close>
  until it lies in \<open>[1, 2)\<close>, in at most \<open>fuel\<close> steps.\<close>

fun floor_log2 :: "nat \<Rightarrow> real \<Rightarrow> int" where
  "floor_log2 0 x = 0"
| "floor_log2 (Suc fuel) x =
     (if 2 \<le> x then floor_log2 fuel (x / 2) + 1
      else if x < 1 then floor_log2 fuel (x * 2) - 1
      else 0)"

text \<open>Rounding to the nearest integer, a tie going to the even one.\<close>

definition round_half_even :: "real \<Rightarrow> int" where
  "round_half_even s =
     (let f = \<lfloor>s\<rfloor>; d = s - of_int f
      in if d < 1 / 2 then f else if 1 / 2 < d then f + 1 else if even f then f else f + 1)"

text \<open>
  The double nearest to a real number (round to nearest, ties to even), which is what
  every float operation returns for its exact result. The spacing of the doubles around
  \<open>x\<close> is \<open>2^(e - 52)\<close>, with \<open>e\<close> not below \<open>-1022\<close> (subnormal numbers); a result of
  magnitude \<open>2^1024\<close> or more is an infinity.
\<close>

definition round_double :: "real \<Rightarrow> pyfloat" where
  "round_double x =
     (let a = \<bar>x\<bar>;
          e = (if a < pow2 (- 1022) then - 1022
               else if pow2 1024 \<le> a then 1024
               else floor_log2 1024 a);
          q = e - 52;
          r = of_int (round_half_even (a / pow2 q)) * pow2 q
      in if pow2 1024 \<le> r then (if 0 < x then PosInf else NegInf)
         else Finite (if x < 0 then - r else r))"

text \<open>The real numbers that are doubles: rounding leaves them as they are.\<close>

definition is_double :: "real \<Rightarrow> bool" where
  "is_double x = (round_double x = Finite x)"

text \<open>The values a Python float can have.\<close>

fun is_pyfloat :: "pyfloat \<Rightarrow> bool" where
  "is_pyfloat (Finite x) = is_double x"
| "is_pyfloat PosInf = True"
| "is_pyfloat NegInf = True"
| "is_pyfloat NaN = True"

text \<open>Float negation, addition and multiplication; \<open>0\<close> and \<open>1\<close> are the floats
  \<open>0.0\<close> and \<open>1.0\<close>, which is also what the integers 0 and 1 become next to a float.
  Addition and multiplication do not raise: an overflow gives an infinity.\<close>

instantiation pyfloat :: "{zero, one, uminus, plus, times}"
begin

definition zero_pyfloat :: pyfloat where
  "zero_pyfloat = Finite 0"

definition one_pyfloat :: pyfloat where
  "one_pyfloat = Finite 1"

fun uminus_pyfloat :: "pyfloat \<Rightarrow> pyfloat" where
  "uminus_pyfloat (Finite x) = Finite (- x)"
| "uminus_pyfloat PosInf = NegInf"
| "uminus_pyfloat NegInf = PosInf"
| "uminus_pyfloat NaN = NaN"

fun plus_pyfloat :: "pyfloat \<Rightarrow> pyfloat \<Rightarrow> pyfloat" where
  "plus_pyfloat (Finite x) (Finite y) = round_double (x + y)"
| "plus_pyfloat NaN y = NaN"
| "plus_pyfloat x NaN = NaN"
| "plus_pyfloat PosInf NegInf = NaN"
| "plus_pyfloat NegInf PosInf = NaN"
| "plus_pyfloat PosInf y = PosInf"
| "plus_pyfloat x PosInf = PosInf"
| "plus_pyfloat NegInf y = NegInf"
| "plus_pyfloat x NegInf = NegInf"

fun times_infinite :: "bool \<Rightarrow> pyfloat \<Rightarrow> pyfloat" where
  "times_infinite positive (Finite y) =
     (if y = 0 then NaN else if (0 < y) = positive then PosInf else NegInf)"
| "times_infinite positive PosInf = (if positive then PosInf else NegInf)"
| "times_infinite positive NegInf = (if positive then NegInf else PosInf)"
| "times_infinite positive NaN = NaN"

fun times_pyfloat :: "pyfloat \<Rightarrow> pyfloat \<Rightarrow> pyfloat" where
  "times_pyfloat (Finite x) (Finite y) = round_double (x * y)"
| "times_pyfloat NaN y = NaN"
| "times_pyfloat x NaN = NaN"
| "times_pyfloat PosInf y = times_infinite True y"
| "times_pyfloat NegInf y = times_infinite False y"
| "times_pyfloat x PosInf = times_infinite True x"
| "times_pyfloat x NegInf = times_infinite False x"

instance ..

end

text \<open>\<open>x == y\<close> on floats: NaN is equal to nothing, not even to itself.\<close>

definition float_eq :: "pyfloat \<Rightarrow> pyfloat \<Rightarrow> bool" where
  "float_eq x y = (x \<noteq> NaN \<and> y \<noteq> NaN \<and> x = y)"

subsection \<open>Operands\<close>

text \<open>
  The right operand of an arithmetic operator is duck typed in the source. The model
  distinguishes a plain number, a tuple-like sequence of numbers (a plain tuple, a
  \<open>Vec\<close>, a \<open>Mat\<close> or a \<open>Quaternion\<close>, all of which are tuples), and \<open>None\<close>.
\<close>

datatype 'a operand = Scalar 'a | Items "'a list" | NoneVal

text \<open>\<open>other[i]\<close>: subscripting a number or \<open>None\<close> raises \<open>TypeError\<close>, an index
  past the end of a tuple raises \<open>IndexError\<close>.\<close>

fun subscript :: "'a operand \<Rightarrow> nat \<Rightarrow> error + 'a" where
  "subscript (Scalar n) i = Inl TypeError"
| "subscript NoneVal i = Inl TypeError"
| "subscript (Items xs) i = (if i < length xs then Inr (xs ! i) else Inl IndexError)"

text \<open>\<open>number + other\<close> and \<open>number * other\<close> for a number on the left: defined when
  \<open>other\<close> is a number, \<open>TypeError\<close> otherwise (a number plus a tuple, a number plus
  \<open>None\<close>; a float times a tuple).\<close>

fun num_add :: "'a::plus \<Rightarrow> 'a operand \<Rightarrow> error + 'a" where
  "num_add a (Scalar n) = Inr (a + n)"
| "num_add a (Items xs) = Inl TypeError"
| "num_add a NoneVal = Inl TypeError"

fun num_mul :: "'a::times \<Rightarrow> 'a operand \<Rightarrow> error + 'a" where
  "num_mul a (Scalar n) = Inr (a * n)"
| "num_mul a (Items xs) = Inl TypeError"
| "num_mul a NoneVal = Inl TypeError"

text \<open>\<open>other == 0\<close>.\<close>

fun equals_zero :: "'a::zero operand \<Rightarrow> bool" where
  "equals_zero (Scalar n) = (n = 0)"
| "equals_zero (Items xs) = False"
| "equals_zero NoneVal = False"

section \<open>Module \<open>kiglent.vector\<close>\<close>

datatype 'a Vec2 = Vec2 'a 'a
datatype 'a Vec3 = Vec3 'a 'a 'a
datatype 'a Vec4 = Vec4 'a 'a 'a 'a

fun Vec2_items :: "'a Vec2 \<Rightarrow> 'a list" where
  "Vec2_items (Vec2 x y) = [x, y]"

fun Vec3_items :: "'a Vec3 \<Rightarrow> 'a list" where
  "Vec3_items (Vec3 x y z) = [x, y, z]"

fun Vec4_items :: "'a Vec4 \<Rightarrow> 'a list" where
  "Vec4_items (Vec4 x y z w) = [x, y, z, w]"

subsection \<open>\<open>Vec2.__add__\<close> and \<open>Vec2.__radd__\<close>\<close>

text \<open>
  The \<open>try\<close> block builds \<open>Vec2(self[0] + other[0], self[1] + other[1])\<close>, evaluating
  left to right; the first exception leaves the block. Only \<open>TypeError\<close> is caught, and
  the handler broadcasts \<open>other\<close> as a scalar.
\<close>

fun Vec2_add_paired :: "'a::plus Vec2 \<Rightarrow> 'a operand \<Rightarrow> error + 'a Vec2" where
  "Vec2_add_paired (Vec2 x y) other =
     (case subscript other 0 of Inl e \<Rightarrow> Inl e | Inr o0 \<Rightarrow>
      case subscript other 1 of Inl e \<Rightarrow> Inl e | Inr o1 \<Rightarrow>
        Inr (Vec2 (x + o0) (y + o1)))"

fun Vec2_add_scalar :: "'a::plus Vec2 \<Rightarrow> 'a operand \<Rightarrow> error + 'a Vec2" where
  "Vec2_add_scalar (Vec2 x y) other =
     (case num_add x other of Inl e \<Rightarrow> Inl e | Inr r0 \<Rightarrow>
      case num_add y other of Inl e \<Rightarrow> Inl e | Inr r1 \<Rightarrow>
        Inr (Vec2 r0 r1))"

definition Vec2_add :: "'a::plus Vec2 \<Rightarrow> 'a operand \<Rightarrow> error + 'a Vec2" where
  "Vec2_add self other =
     (case Vec2_add_paired self other of
        Inl TypeError \<Rightarrow> Vec2_add_scalar self other
      | r \<Rightarrow> r)"

definition Vec2_radd :: "'a::{plus,zero} Vec2 \<Rightarrow> 'a operand \<Rightarrow> error + 'a Vec2" where
  "Vec2_radd self other =
     (case Vec2_add self other of
        Inl TypeError \<Rightarrow> (if equals_zero other then Inr self else Inl TypeError)
      | r \<Rightarrow> r)"

subsection \<open>\<open>Vec3\<close> arithmetic\<close>

fun Vec3_add_paired :: "'a::plus Vec3 \<Rightarrow> 'a operand \<Rightarrow> error + 'a Vec3" where
  "Vec3_add_paired (Vec3 x y z) other =
     (case subscript other 0 of Inl e \<Rightarrow> Inl e | Inr o0 \<Rightarrow>
      case subscript other 1 of Inl e \<Rightarrow> Inl e | Inr o1 \<Rightarrow>
      case subscript other 2 of Inl e \<Rightarrow> Inl e | Inr o2 \<Rightarrow>
        Inr (Vec3 (x + o0) (y + o1) (z + o2)))"

fun Vec3_add_scalar :: "'a::plus Vec3 \<Rightarrow> 'a operand \<Rightarrow> error + 'a Vec3" where
  "Vec3_add_scalar (Vec3 x y z) other =
     (case num_add x other of Inl e \<Rightarrow> Inl e | Inr r0 \<Rightarrow>
      case num_add y other of Inl e \<Rightarrow> Inl e | Inr r1 \<Rightarrow>
      case num_add z other of Inl e \<Rightarrow> Inl e | Inr r2 \<Rightarrow>
        Inr (Vec3 r0 r1 r2))"

definition Vec3_add :: "'a::plus Vec3 \<Rightarrow> 'a operand \<Rightarrow> error + 'a Vec3" where
  "Vec3_add self other =
     (case Vec3_add_paired self other of
        Inl TypeError \<Rightarrow> Vec3_add_scalar self other
      | r \<Rightarrow> r)"

definition Vec3_radd :: "'a::{plus,zero} Vec3 \<Rightarrow> 'a operand \<Rightarrow> error + 'a Vec3" where
  "Vec3_radd self other =
     (case Vec3_add self other of
        Inl TypeError \<Rightarrow> (if equals_zero other then Inr self else Inl TypeError)
      | r \<Rightarrow> r)"

fun Vec3_mul_paired :: "'a::times Vec3 \<Rightarrow> 'a operand \<Rightarrow> error + 'a Vec3" where
  "Vec3_mul_paired (Vec3 x y z) scalar =
     (case subscript scalar 0 of Inl e \<Rightarrow> Inl e | Inr s0 \<Rightarrow>
      case subscript scalar 1 of Inl e \<Rightarrow> Inl e | Inr s1 \<Rightarrow>
      case subscript scalar 2 of Inl e \<Rightarrow> Inl e | Inr s2 \<Rightarrow>
        Inr (Vec3 (x * s0) (y * s1) (z * s2)))"

fun Vec3_mul_scalar :: "'a::times Vec3 \<Rightarrow> 'a operand \<Rightarrow> error + 'a Vec3" where
  "Vec3_mul_scalar (Vec3 x y z) scalar =
     (case num_mul x scalar of Inl e \<Rightarrow> Inl e | Inr r0 \<Rightarrow>
      case num_mul y scalar of Inl e \<Rightarrow> Inl e | Inr r1 \<Rightarrow>
      case num_mul z scalar of Inl e \<Rightarrow> Inl e | Inr r2 \<Rightarrow>
        Inr (Vec3 r0 r1 r2))"

definition Vec3_mul :: "'a::times Vec3 \<Rightarrow> 'a operand \<Rightarrow> error + 'a Vec3" where
  "Vec3_mul self scalar =
     (case Vec3_mul_paired self scalar of
        Inl TypeError \<Rightarrow> Vec3_mul_scalar self scalar
      | r \<Rightarrow> r)"

text \<open>\<open>Vec3.cross\<close> and \<open>Vec3.dot\<close> read \<open>other[0..2]\<close>; here \<open>other\<close> is a \<open>Vec3\<close>,
  the only way the matrix module calls them.\<close>

fun Vec3_cross :: "'a::{times,minus} Vec3 \<Rightarrow> 'a Vec3 \<Rightarrow> 'a Vec3" where
  "Vec3_cross (Vec3 x y z) (Vec3 o0 o1 o2) =
     Vec3 ((y * o2) - (z * o1)) ((z * o0) - (x * o2)) ((x * o1) - (y * o0))"

fun Vec3_dot :: "'a::{plus,times} Vec3 \<Rightarrow> 'a Vec3 \<Rightarrow> 'a" where
  "Vec3_dot (Vec3 x y z) (Vec3 o0 o1 o2) = x * o0 + y * o1 + z * o2"

subsection \<open>\<open>Vec4.__add__\<close> and \<open>Vec4.__radd__\<close>\<close>

text \<open>\<open>Vec4.__add__\<close> writes the sums as \<open>other[i] + self[i]\<close>.\<close>

fun Vec4_add_paired :: "'a::plus Vec4 \<Rightarrow> 'a operand \<Rightarrow> error + 'a Vec4" where
  "Vec4_add_paired (Vec4 x y z w) other =
     (case subscript other 0 of Inl e \<Rightarrow> Inl e | Inr o0 \<Rightarrow>
      case subscript other 1 of Inl e \<Rightarrow> Inl e | Inr o1 \<Rightarrow>
      case subscript other 2 of Inl e \<Rightarrow> Inl e | Inr o2 \<Rightarrow>
      case subscript other 3 of Inl e \<Rightarrow> Inl e | Inr o3 \<Rightarrow>
        Inr (Vec4 (o0 + x) (o1 + y) (o2 + z) (o3 + w)))"

text \<open>\<open>other + self[i]\<close> with a number on the right: a number on the left gives the
  sum, a tuple on the left raises \<open>TypeError\<close> (tuple concatenation with a float), and so
  does \<open>None\<close>.\<close>

fun add_num :: "'a::plus operand \<Rightarrow> 'a \<Rightarrow> error + 'a" where
  "add_num (Scalar n) a = Inr (n + a)"
| "add_num (Items xs) a = Inl TypeError"
| "add_num NoneVal a = Inl TypeError"

fun Vec4_add_scalar :: "'a::plus Vec4 \<Rightarrow> 'a operand \<Rightarrow> error + 'a Vec4" where
  "Vec4_add_scalar (Vec4 x y z w) other =
     (case add_num other x of Inl e \<Rightarrow> Inl e | Inr r0 \<Rightarrow>
      case add_num other y of Inl e \<Rightarrow> Inl e | Inr r1 \<Rightarrow>
      case add_num other z of Inl e \<Rightarrow> Inl e | Inr r2 \<Rightarrow>
      case add_num other w of Inl e \<Rightarrow> Inl e | Inr r3 \<Rightarrow>
        Inr (Vec4 r0 r1 r2 r3))"

definition Vec4_add :: "'a::plus Vec4 \<Rightarrow> 'a operand \<Rightarrow> error + 'a Vec4" where
  "Vec4_add self other =
     (case Vec4_add_paired self other of
        Inl TypeError \<Rightarrow> Vec4_add_scalar self other
      | r \<Rightarrow> r)"

definition Vec4_radd :: "'a::{plus,zero} Vec4 \<Rightarrow> 'a operand \<Rightarrow> error + 'a Vec4" where
  "Vec4_radd self other =
     (case Vec4_add self other of
        Inl TypeError \<Rightarrow> (if equals_zero other then Inr self else Inl TypeError)
      | r \<Rightarrow> r)"

text \<open>
  \<open>0 + v\<close> with the integer on the left: \<open>int.__add__\<close> does not know the vector and
  returns \<open>NotImplemented\<close>, so Python calls the reflected method \<open>v.__radd__(0)\<close>.
\<close>

definition int_plus_Vec2 :: "'a::{plus,zero} \<Rightarrow> 'a Vec2 \<Rightarrow> error + 'a Vec2" where
  "int_plus_Vec2 n v = Vec2_radd v (Scalar n)"

definition int_plus_Vec3 :: "'a::{plus,zero} \<Rightarrow> 'a Vec3 \<Rightarrow> error + 'a Vec3" where
  "int_plus_Vec3 n v = Vec3_radd v (Scalar n)"

definition int_plus_Vec4 :: "'a::{plus,zero} \<Rightarrow> 'a Vec4 \<Rightarrow> error + 'a Vec4" where
  "int_plus_Vec4 n v = Vec4_radd v (Scalar n)"

subsection \<open>Equality of vectors\<close>

text \<open>
  The vectors are named tuples, and \<open>u == v\<close> on tuples of the same length compares the
  components in turn with the \<open>==\<close> of numbers, here the parameter \<open>eq\<close>. (Python takes two
  components that are the same object for equal without comparing them; the components
  of a vector that an operator has just built are new objects.)
\<close>

fun Vec2_eq :: "('a \<Rightarrow> 'a \<Rightarrow> bool) \<Rightarrow> 'a Vec2 \<Rightarrow> 'a Vec2 \<Rightarrow> bool" where
  "Vec2_eq eq (Vec2 x y) (Vec2 x' y') = (eq x x' \<and> eq y y')"

fun Vec3_eq :: "('a \<Rightarrow> 'a \<Rightarrow> bool) \<Rightarrow> 'a Vec3 \<Rightarrow> 'a Vec3 \<Rightarrow> bool" where
  "Vec3_eq eq (Vec3 x y z) (Vec3 x' y' z') = (eq x x' \<and> eq y y' \<and> eq z z')"

fun Vec4_eq :: "('a \<Rightarrow> 'a \<Rightarrow> bool) \<Rightarrow> 'a Vec4 \<Rightarrow> 'a Vec4 \<Rightarrow> bool" where
  "Vec4_eq eq (Vec4 x y z w) (Vec4 x' y' z' w') = (eq x x' \<and> eq y y' \<and> eq z z' \<and> eq w w')"

text \<open>A sequence of float components none of which is NaN.\<close>

definition ordinary_floats :: "pyfloat list \<Rightarrow> bool" where
  "ordinary_floats xs = (list_all is_pyfloat xs \<and> NaN \<notin> set xs)"

section \<open>Module \<open>kiglent.matrix\<close>\<close>

subsection \<open>The module namespace\<close>

text \<open>
  A name used in a function body is looked up in the globals of the defining module when
  the body runs. Module \<open>matrix\<close> binds \<open>_math\<close>, \<open>_typing\<close> and \<open>_warnings\<close> by its
  imports and \<open>Mat3\<close>, \<open>Mat4\<close> and \<open>Quaternion\<close> by its class statements. The statement
  \<open>from kiglent.vector import Vec3, Vec4\<close> stands under \<open>if _typing.TYPE_CHECKING:\<close>,
  and \<open>typing.TYPE_CHECKING\<close> is \<open>False\<close> whenever the program runs.
\<close>

definition TYPE_CHECKING :: bool where
  "TYPE_CHECKING = False"

definition matrix_globals :: "string list" where
  "matrix_globals =
     [''_math'', ''_typing'', ''_warnings'']
     @ (if TYPE_CHECKING then [''Vec3'', ''Vec4''] else [])
     @ [''Mat3'', ''Mat4'', ''Quaternion'']"

text \<open>Calling the class bound to \<open>name\<close> in namespace \<open>ns\<close>: an unbound name raises
  \<open>NameError\<close>, a bound one yields the constructed value.\<close>

definition construct :: "string list \<Rightarrow> string \<Rightarrow> 'a \<Rightarrow> error + 'a" where
  "construct ns name v = (if name \<in> set ns then Inr v else Inl (NameError name))"

text \<open>Tuple unpacking \<open>b1, ..., bn = other\<close>: a value that is not iterable raises
  \<open>TypeError\<close>, an iterable of another length raises \<open>ValueError\<close>.\<close>

fun unpack :: "nat \<Rightarrow> 'a operand \<Rightarrow> error + 'a list" where
  "unpack n (Scalar x) = Inl TypeError"
| "unpack n NoneVal = Inl TypeError"
| "unpack n (Items xs) = (if length xs = n then Inr xs else Inl ValueError)"

text \<open>Division, and with it \<open>Mat4.orthogonal_projection\<close> and the two \<open>__invert__\<close>
  methods, is modelled in exact arithmetic only. \<open>a / b\<close> raises \<open>ZeroDivisionError\<close> when
  \<open>b\<close> is zero.\<close>

definition py_div :: "real \<Rightarrow> real \<Rightarrow> error + real" where
  "py_div a b = (if b = 0 then Inl ZeroDivisionError else Inr (a / b))"

subsection \<open>\<open>Mat3\<close>\<close>

datatype 'a Mat3 = Mat3 'a 'a 'a 'a 'a 'a 'a 'a 'a

definition Mat3_identity :: "'a::{zero,one} Mat3" where
  "Mat3_identity = Mat3 1 0 0 0 1 0 0 0 1"

fun Mat3_items :: "'a Mat3 \<Rightarrow> 'a list" where
  "Mat3_items (Mat3 a b c d e f g h i) = [a, b, c, d, e, f, g, h, i]"

datatype 'a Mat3_product = ProductMat3 "'a Mat3" | ProductVec3 "'a Vec3"

text \<open>\<open>Mat3.__matmul__\<close>. The \<open>try\<close> block unpacks nine elements of \<open>other\<close>; only the
  \<open>ValueError\<close> of that unpacking is caught, and the handler unpacks three elements and
  calls \<open>Vec3\<close>.\<close>

primrec Mat3_matmul ::
  "string list \<Rightarrow> 'a::{plus,times} Mat3 \<Rightarrow> 'a operand \<Rightarrow> error + 'a Mat3_product" where
  "Mat3_matmul ns (Mat3 a11 a12 a13 a21 a22 a23 a31 a32 a33) other =
     (case unpack 9 other of
        Inr bs \<Rightarrow>
          (let b11 = bs ! 0; b12 = bs ! 1; b13 = bs ! 2;
               b21 = bs ! 3; b22 = bs ! 4; b23 = bs ! 5;
               b31 = bs ! 6; b32 = bs ! 7; b33 = bs ! 8
           in construct ns ''Mat3'' (ProductMat3 (Mat3
                (a11 * b11 + a21 * b12 + a31 * b13) (a12 * b11 + a22 * b12 + a32 * b13)
                (a13 * b11 + a23 * b12 + a33 * b13)
                (a11 * b21 + a21 * b22 + a31 * b23) (a12 * b21 + a22 * b22 + a32 * b23)
                (a13 * b21 + a23 * b22 + a33 * b23)
                (a11 * b31 + a21 * b32 + a31 * b33) (a12 * b31 + a22 * b32 + a32 * b33)
                (a13 * b31 + a23 * b32 + a33 * b33))))
      | Inl ValueError \<Rightarrow>
          (case unpack 3 other of
             Inl e \<Rightarrow> Inl e
           | Inr vs \<Rightarrow>
               (let x = vs ! 0; y = vs ! 1; z = vs ! 2
                in construct ns ''Vec3'' (ProductVec3 (Vec3
                     (a11 * x + a21 * y + a31 * z)
                     (a12 * x + a22 * y + a32 * z)
                     (a13 * x + a23 * y + a33 * z)))))
      | Inl e \<Rightarrow> Inl e)"

text \<open>\<open>Mat3.translate\<close>: \<open>self @ Mat3(1.0, 0.0, 0.0, 0.0, 1.0, 0.0, -tx, ty, 1.0)\<close>.\<close>

definition Mat3_translate ::
  "string list \<Rightarrow> 'a::{zero,one,uminus,plus,times} Mat3 \<Rightarrow> 'a \<Rightarrow> 'a \<Rightarrow> error + 'a Mat3_product" where
  "Mat3_translate ns self tx ty =
     (case construct ns ''Mat3'' (Mat3 1 0 0 0 1 0 (- tx) ty 1) of
        Inl e \<Rightarrow> Inl e
      | Inr t \<Rightarrow> Mat3_matmul ns self (Items (Mat3_items t)))"

text \<open>
  The entry \<open>a * (-tx) + d * ty + g\<close> of the translated column of
  \<open>Mat3.translate\<close> is computed without rounding: the two products, their sum and the
  sum with \<open>g\<close> are doubles.
\<close>

definition exact_entry :: "real \<Rightarrow> real \<Rightarrow> real \<Rightarrow> real \<Rightarrow> real \<Rightarrow> bool" where
  "exact_entry a d g tx ty =
     (is_double (a * (- tx)) \<and> is_double (d * ty) \<and>
      is_double (a * (- tx) + d * ty) \<and> is_double (a * (- tx) + d * ty + g))"

text \<open>All three entries of the translated column are computed without rounding.\<close>

definition exact_translation :: "real Mat3 \<Rightarrow> real \<Rightarrow> real \<Rightarrow> bool" where
  "exact_translation m tx ty = (case m of Mat3 a b c d e f g h i \<Rightarrow>
     exact_entry a d g tx ty \<and> exact_entry b e h tx ty \<and> exact_entry c f i tx ty)"

text \<open>A matrix of finite floats.\<close>

definition finite_Mat3 :: "real Mat3 \<Rightarrow> pyfloat Mat3" where
  "finite_Mat3 m = (case m of Mat3 a b c d e f g h i \<Rightarrow>
     Mat3 (Finite a) (Finite b) (Finite c) (Finite d) (Finite e) (Finite f)
          (Finite g) (Finite h) (Finite i))"

text \<open>\<open>Mat3.__invert__\<close>. The result carries the warnings emitted through
  \<open>_warnings.warn\<close>, which does not raise.\<close>

primrec Mat3_invert :: "string list \<Rightarrow> real Mat3 \<Rightarrow> error + (string list \<times> real Mat3)" where
  "Mat3_invert ns (Mat3 a11 a12 a13 a21 a22 a23 a31 a32 a33) =
     (let a = a22 * a33 - a32 * a23;
          b = a31 * a23 - a21 * a33;
          c = a21 * a32 - a22 * a31;
          d = a32 * a13 - a12 * a33;
          e = a11 * a33 - a31 * a13;
          f = a31 * a12 - a11 * a32;
          g = a12 * a23 - a22 * a13;
          h = a21 * a13 - a11 * a23;
          i = a11 * a22 - a21 * a12;
          det = a11 * a + a21 * d + a31 * g
      in if det = 0
         then Inr ([''Unable to calculate inverse of singular Matrix''],
                   Mat3 a11 a12 a13 a21 a22 a23 a31 a32 a33)
         else (let rep = 1 / det
               in case construct ns ''Mat3''
                         (Mat3 (a * rep) (b * rep) (c * rep)
                               (d * rep) (e * rep) (f * rep)
                               (g * rep) (h * rep) (i * rep)) of
                    Inl err \<Rightarrow> Inl err
                  | Inr m \<Rightarrow> Inr ([], m)))"

text \<open>The determinant as \<open>Mat3.__invert__\<close> computes it.\<close>

primrec Mat3_det :: "real Mat3 \<Rightarrow> real" where
  "Mat3_det (Mat3 a11 a12 a13 a21 a22 a23 a31 a32 a33) =
     a11 * (a22 * a33 - a32 * a23) + a21 * (a32 * a13 - a12 * a33)
     + a31 * (a12 * a23 - a22 * a13)"

subsection \<open>\<open>Mat4\<close>\<close>

datatype 'a Mat4 = Mat4 'a 'a 'a 'a 'a 'a 'a 'a 'a 'a 'a 'a 'a 'a 'a 'a

definition Mat4_identity :: "'a::{zero,one} Mat4" where
  "Mat4_identity = Mat4 1 0 0 0 0 1 0 0 0 0 1 0 0 0 0 1"

fun Mat4_items :: "'a Mat4 \<Rightarrow> 'a list" where
  "Mat4_items (Mat4 a b c d e f g h i j k l m n o' p) =
     [a, b, c, d, e, f, g, h, i, j, k, l, m, n, o', p]"

datatype 'a Mat4_product = ProductMat4 "'a Mat4" | ProductVec4 "'a Vec4"

text \<open>\<open>Mat4.orthogonal_projection\<close>. Each division raises \<open>ZeroDivisionError\<close> on a
  zero divisor; \<open>cls\<close> is the class the method is called on. The parameter \<open>top\<close>
  is written \<open>top'\<close>.\<close>

definition Mat4_orthogonal_projection ::
  "real \<Rightarrow> real \<Rightarrow> real \<Rightarrow> real \<Rightarrow> real \<Rightarrow> real \<Rightarrow> error + real Mat4" where
  "Mat4_orthogonal_projection left right bottom top' z_near z_far =
     (let width = right - left;
          height = top' - bottom;
          depth = z_far - z_near
      in case py_div 2 width of Inl e \<Rightarrow> Inl e | Inr s_x \<Rightarrow>
        (case py_div 2 height of Inl e \<Rightarrow> Inl e | Inr s_y \<Rightarrow>
        (case py_div 2 (- depth) of Inl e \<Rightarrow> Inl e | Inr s_z \<Rightarrow>
        (case py_div (- (right + left)) width of Inl e \<Rightarrow> Inl e | Inr t_x \<Rightarrow>
        (case py_div (- (top' + bottom)) height of Inl e \<Rightarrow> Inl e | Inr t_y \<Rightarrow>
        (case py_div (- (z_far + z_near)) depth of Inl e \<Rightarrow> Inl e | Inr t_z \<Rightarrow>
           Inr (Mat4 s_x 0 0 0
                     0 s_y 0 0
                     0 0 s_z 0
                     t_x t_y t_z 1)))))))"

text \<open>\<open>Mat4.__invert__\<close>.\<close>

primrec Mat4_invert :: "string list \<Rightarrow> real Mat4 \<Rightarrow> error + (string list \<times> real Mat4)" where
  "Mat4_invert ns (Mat4 a11 a12 a13 a14 a21 a22 a23 a24 a31 a32 a33 a34 a41 a42 a43 a44) =
     (let a = a33 * a44 - a34 * a43;
          b = a32 * a44 - a34 * a42;
          c = a32 * a43 - a33 * a42;
          d = a31 * a44 - a34 * a41;
          e = a31 * a43 - a33 * a41;
          f = a31 * a42 - a32 * a41;
          g = a23 * a44 - a24 * a43;
          h = a22 * a44 - a24 * a42;
          i = a22 * a43 - a23 * a42;
          j = a23 * a34 - a24 * a33;
          k = a22 * a34 - a24 * a32;
          l = a22 * a33 - a23 * a32;
          m = a21 * a44 - a24 * a41;
          n = a21 * a43 - a23 * a41;
          o' = a21 * a34 - a24 * a31;
          p = a21 * a33 - a23 * a31;
          q = a21 * a42 - a22 * a41;
          r = a21 * a32 - a22 * a31;
          det = (a11 * (a22 * a - a23 * b + a24 * c) -
                 a12 * (a21 * a - a23 * d + a24 * e) +
                 a13 * (a21 * b - a22 * d + a24 * f) -
                 a14 * (a21 * c - a22 * e + a23 * f))
      in if det = 0
         then Inr ([''Unable to calculate inverse of singular Matrix''],
                   Mat4 a11 a12 a13 a14 a21 a22 a23 a24 a31 a32 a33 a34 a41 a42 a43 a44)
         else (let pdet = 1 / det;
                   ndet = - pdet
               in case construct ns ''Mat4''
                    (Mat4 (pdet * (a22 * a - a23 * b + a24 * c))
                          (ndet * (a12 * a - a13 * b + a14 * c))
                          (pdet * (a12 * g - a13 * h + a14 * i))
                          (ndet * (a12 * j - a13 * k + a14 * l))
                          (ndet * (a21 * a - a23 * d + a24 * e))
                          (pdet * (a11 * a - a13 * d + a14 * e))
                          (ndet * (a11 * g - a13 * m + a14 * n))
                          (pdet * (a11 * j - a13 * o' + a14 * p))
                          (pdet * (a21 * b - a22 * d + a24 * f))
                          (ndet * (a11 * b - a12 * d + a14 * f))
                          (pdet * (a11 * h - a12 * m + a14 * q))
                          (ndet * (a11 * k - a12 * o' + a14 * r))
                          (ndet * (a21 * c - a22 * e + a23 * f))
                          (pdet * (a11 * c - a12 * e + a13 * f))
                          (ndet * (a11 * i - a12 * n + a13 * q))
                          (pdet * (a11 * l - a12 * p + a13 * r))) of
                    Inl err \<Rightarrow> Inl err
                  | Inr res \<Rightarrow> Inr ([], res)))"

text \<open>The determinant as \<open>Mat4.__invert__\<close> computes it.\<close>

primrec Mat4_det :: "real Mat4 \<Rightarrow> real" where
  "Mat4_det (Mat4 a11 a12 a13 a14 a21 a22 a23 a24 a31 a32 a33 a34 a41 a42 a43 a44) =
     (let a = a33 * a44 - a34 * a43;
          b = a32 * a44 - a34 * a42;
          c = a32 * a43 - a33 * a42;
          d = a31 * a44 - a34 * a41;
          e = a31 * a43 - a33 * a41;
          f = a31 * a42 - a32 * a41
      in a11 * (a22 * a - a23 * b + a24 * c) -
         a12 * (a21 * a - a23 * d + a24 * e) +
         a13 * (a21 * b - a22 * d + a24 * f) -
         a14 * (a21 * c - a22 * e + a23 * f))"

text \<open>\<open>Mat4.__matmul__\<close>, built like \<open>Mat3.__matmul__\<close>: sixteen elements for a matrix,
  and in the handler four elements and a call of \<open>Vec4\<close>.\<close>

primrec Mat4_matmul ::
  "string list \<Rightarrow> 'a::{plus,times} Mat4 \<Rightarrow> 'a operand \<Rightarrow> error + 'a Mat4_product" where
  "Mat4_matmul ns (Mat4 a11 a12 a13 a14 a21 a22 a23 a24 a31 a32 a33 a34 a41 a42 a43 a44) other =
     (case unpack 16 other of
        Inr bs \<Rightarrow>
          (let b11 = bs ! 0; b12 = bs ! 1; b13 = bs ! 2; b14 = bs ! 3;
               b21 = bs ! 4; b22 = bs ! 5; b23 = bs ! 6; b24 = bs ! 7;
               b31 = bs ! 8; b32 = bs ! 9; b33 = bs ! 10; b34 = bs ! 11;
               b41 = bs ! 12; b42 = bs ! 13; b43 = bs ! 14; b44 = bs ! 15
           in construct ns ''Mat4'' (ProductMat4 (Mat4
                (a11 * b11 + a21 * b12 + a31 * b13 + a41 * b14)
                (a12 * b11 + a22 * b12 + a32 * b13 + a42 * b14)
                (a13 * b11 + a23 * b12 + a33 * b13 + a43 * b14)
                (a14 * b11 + a24 * b12 + a34 * b13 + a44 * b14)
                (a11 * b21 + a21 * b22 + a31 * b23 + a41 * b24)
                (a12 * b21 + a22 * b22 + a32 * b23 + a42 * b24)
                (a13 * b21 + a23 * b22 + a33 * b23 + a43 * b24)
                (a14 * b21 + a24 * b22 + a34 * b23 + a44 * b24)
                (a11 * b31 + a21 * b32 + a31 * b33 + a41 * b34)
                (a12 * b31 + a22 * b32 + a32 * b33 + a42 * b34)
                (a13 * b31 + a23 * b32 + a33 * b33 + a43 * b34)
                (a14 * b31 + a24 * b32 + a34 * b33 + a44 * b34)
                (a11 * b41 + a21 * b42 + a31 * b43 + a41 * b44)
                (a12 * b41 + a22 * b42 + a32 * b43 + a42 * b44)
                (a13 * b41 + a23 * b42 + a33 * b43 + a43 * b44)
                (a14 * b41 + a24 * b42 + a34 * b43 + a44 * b44))))
      | Inl ValueError \<Rightarrow>
          (case unpack 4 other of
             Inl e \<Rightarrow> Inl e
           | Inr vs \<Rightarrow>
               (let x = vs ! 0; y = vs ! 1; z = vs ! 2; w = vs ! 3
                in construct ns ''Vec4'' (ProductVec4 (Vec4
                     (x * a11 + y * a21 + z * a31 + w * a41)
                     (x * a12 + y * a22 + z * a32 + w * a42)
                     (x * a13 + y * a23 + z * a33 + w * a43)
                     (x * a14 + y * a24 + z * a34 + w * a44)))))
      | Inl e \<Rightarrow> Inl e)"

subsection \<open>\<open>Quaternion\<close>\<close>

datatype 'a Quaternion = Quaternion 'a 'a 'a 'a

text \<open>\<open>Quaternion.__matmul__\<close>. Both operands are split into the scalar \<open>w\<close> and
  \<open>Vec3(*self[1:])\<close>; \<open>v * a\<close> and \<open>u * b\<close> are \<open>Vec3.__mul__\<close> with a number, the sums
  are \<open>Vec3.__add__\<close> with a vector.\<close>

fun Quaternion_matmul ::
  "string list \<Rightarrow> 'a::{plus,minus,times} Quaternion \<Rightarrow> 'a Quaternion \<Rightarrow> error + 'a Quaternion" where
  "Quaternion_matmul ns (Quaternion sw sx sy sz) (Quaternion ow ox oy oz) =
     (case construct ns ''Vec3'' (Vec3 sx sy sz) of Inl e \<Rightarrow> Inl e | Inr u \<Rightarrow>
     (case construct ns ''Vec3'' (Vec3 ox oy oz) of Inl e \<Rightarrow> Inl e | Inr v \<Rightarrow>
       (let a = sw; b = ow;
            scalar = a * b - Vec3_dot u v
        in case Vec3_mul v (Scalar a) of Inl e \<Rightarrow> Inl e | Inr va \<Rightarrow>
          (case Vec3_mul u (Scalar b) of Inl e \<Rightarrow> Inl e | Inr ub \<Rightarrow>
          (case Vec3_add va (Items (Vec3_items ub)) of Inl e \<Rightarrow> Inl e | Inr s1 \<Rightarrow>
          (case Vec3_add s1 (Items (Vec3_items (Vec3_cross u v))) of Inl e \<Rightarrow> Inl e
           | Inr (Vec3 vx vy vz) \<Rightarrow>
               construct ns ''Quaternion'' (Quaternion scalar vx vy vz)))))))"

text \<open>The transpose of a \<open>Mat3\<close>; not a method of the source, used to say what
  \<open>Mat3.__invert__\<close> returns.\<close>

primrec Mat3_transposed :: "'a Mat3 \<Rightarrow> 'a Mat3" where
  "Mat3_transposed (Mat3 a b c d e f g h i) = Mat3 a d g b e h c f i"

section \<open>Module \<open>kiglent.event\<close>\<close>

text \<open>
  A callable is identified by a number; \<open>run f\<close> tells whether calling \<open>f\<close> with the
  arguments of the dispatch returns a truthy value. Handlers do not change the
  dispatcher while it dispatches. An \<open>EventDispatcher\<close> holds \<open>_events\<close>, a dictionary
  from event names to deques of callables, and \<open>_event_dispatcher_handlers\<close>, a deque
  of handlers; an \<open>EventHandler\<close> is an object whose methods are found by name.
  Every dispatch returns the callables it invoked, in order, and the outcome.
\<close>

type_synonym callable = nat

datatype handler =
    EventDispatcher (events: "string \<rightharpoonup> callable list")
                    (event_dispatcher_handlers: "handler list")
  | EventHandler (methods: "string \<rightharpoonup> callable")

text \<open>\<open>add_event\<close>: \<open>self._events[event].appendleft(func)\<close>; the default dictionary
  supplies an empty deque for a new name. \<open>push_handler\<close>:
  \<open>self._event_dispatcher_handlers.appendleft(handler)\<close>. Both are methods of
  \<open>EventDispatcher\<close> only.\<close>

fun add_event :: "handler \<Rightarrow> string \<Rightarrow> callable \<Rightarrow> error + handler" where
  "add_event (EventDispatcher evs hs) event func =
     Inr (EventDispatcher
            (evs(event \<mapsto> func # (case evs event of None \<Rightarrow> [] | Some fs \<Rightarrow> fs))) hs)"
| "add_event (EventHandler ms) event func = Inl (AttributeError ''add_event'')"

fun push_handler :: "handler \<Rightarrow> handler \<Rightarrow> error + handler" where
  "push_handler (EventDispatcher evs hs) h = Inr (EventDispatcher evs (h # hs))"
| "push_handler (EventHandler ms) h = Inl (AttributeError ''push_handler'')"

text \<open>The loop \<open>for func in functions: if func(*args, **kwargs): return True\<close>: the
  callables invoked and whether one of them returned a truthy value.\<close>

fun call_functions :: "(callable \<Rightarrow> bool) \<Rightarrow> callable list \<Rightarrow> callable list \<times> bool" where
  "call_functions run [] = ([], False)"
| "call_functions run (func # functions) =
     (if run func then ([func], True)
      else (case call_functions run functions of (calls, r) \<Rightarrow> (func # calls, r)))"

text \<open>\<open>EventDispatcher.dispatch_event\<close> and \<open>EventHandler.dispatch_event\<close>, with the
  loop over \<open>self._event_dispatcher_handlers\<close> as \<open>dispatch_handlers\<close>.
  \<open>self._events.get(event)\<close> is \<open>None\<close> for an unknown name, and \<open>None\<close> and an empty
  deque are both falsy. \<open>getattr(self, event)\<close> raises \<open>AttributeError\<close> when the
  handler has no attribute of that name.\<close>

fun dispatch_event :: "(callable \<Rightarrow> bool) \<Rightarrow> handler \<Rightarrow> string \<Rightarrow> callable list \<times> (error + bool)"
  and dispatch_handlers :: "(callable \<Rightarrow> bool) \<Rightarrow> handler list \<Rightarrow> string \<Rightarrow> callable list \<times> (error + bool)"
where
  "dispatch_event run (EventDispatcher evs hs) event =
     (case (case evs event of
              None \<Rightarrow> ([], False)
            | Some functions \<Rightarrow> if functions = [] then ([], False) else call_functions run functions) of
        (calls, True) \<Rightarrow> (calls, Inr True)
      | (calls, False) \<Rightarrow>
          (case dispatch_handlers run hs event of (calls', r) \<Rightarrow> (calls @ calls', r)))"
| "dispatch_event run (EventHandler ms) event =
     (case ms event of
        None \<Rightarrow> ([], Inl (AttributeError event))
      | Some func \<Rightarrow> ([func], Inr (run func)))"
| "dispatch_handlers run [] event = ([], Inr False)"
| "dispatch_handlers run (h # hs) event =
     (case dispatch_event run h event of
        (calls, Inl e) \<Rightarrow> (calls, Inl e)
      | (calls, Inr True) \<Rightarrow> (calls, Inr True)
      | (calls, Inr False) \<Rightarrow>
          (case dispatch_handlers run hs event of (calls', r) \<Rightarrow> (calls @ calls', r)))"

subsection \<open>The dispatch order in the words of the specification\<close>

text \<open>
  The candidates of a dispatch in the order of the specification: the callables
  registered locally for the name, most recently registered first, then the candidates
  of each downstream handler, most recently added first. An \<open>EventHandler\<close> contributes
  its method of that name; \<open>None\<close> stands for an \<open>EventHandler\<close> that has none.
\<close>

fun dispatch_order :: "handler \<Rightarrow> string \<Rightarrow> callable option list"
  and dispatch_order_list :: "handler list \<Rightarrow> string \<Rightarrow> callable option list"
where
  "dispatch_order (EventDispatcher evs hs) event =
     map Some (case evs event of None \<Rightarrow> [] | Some fs \<Rightarrow> fs) @ dispatch_order_list hs event"
| "dispatch_order (EventHandler ms) event = [ms event]"
| "dispatch_order_list [] event = []"
| "dispatch_order_list (h # hs) event = dispatch_order h event @ dispatch_order_list hs event"

text \<open>Trying candidates in order: stop and report handled at the first callable that
  returns a truthy value, report unhandled when the candidates are exhausted; a missing
  method raises \<open>AttributeError\<close> when its turn comes.\<close>

fun try_in_order :: "(callable \<Rightarrow> bool) \<Rightarrow> string \<Rightarrow> callable option list \<Rightarrow> callable list \<times> (error + bool)" where
  "try_in_order run event [] = ([], Inr False)"
| "try_in_order run event (None # cs) = ([], Inl (AttributeError event))"
| "try_in_order run event (Some f # cs) =
     (if run f then ([f], Inr True)
      else (case try_in_order run event cs of (calls, r) \<Rightarrow> (f # calls, r)))"

section \<open>Module \<open>kiglent.window.key\<close>\<close>

text \<open>Modifier mask constants, \<open>1 << 0\<close> to \<open>1 << 9\<close>. Python integers are unbounded,
  so a mask is an \<open>int\<close>.\<close>

definition MOD_SHIFT :: int where "MOD_SHIFT = push_bit 0 1"
definition MOD_CTRL :: int where "MOD_CTRL = push_bit 1 1"
definition MOD_ALT :: int where "MOD_ALT = push_bit 2 1"
definition MOD_CAPSLOCK :: int where "MOD_CAPSLOCK = push_bit 3 1"
definition MOD_NUMLOCK :: int where "MOD_NUMLOCK = push_bit 4 1"
definition MOD_WINDOWS :: int where "MOD_WINDOWS = push_bit 5 1"
definition MOD_COMMAND :: int where "MOD_COMMAND = push_bit 6 1"
definition MOD_OPTION :: int where "MOD_OPTION = push_bit 7 1"
definition MOD_SCROLLLOCK :: int where "MOD_SCROLLLOCK = push_bit 8 1"
definition MOD_FUNCTION :: int where "MOD_FUNCTION = push_bit 9 1"

text \<open>\<open>sep.join(names)\<close>.\<close>

fun join :: "string \<Rightarrow> string list \<Rightarrow> string" where
  "join sep [] = []"
| "join sep [x] = x"
| "join sep (x # y # ys) = x @ sep @ join sep (y # ys)"

text \<open>\<open>if modifiers & flag: mod_names.append(name)\<close>.\<close>

definition append_if_set :: "int \<Rightarrow> int \<Rightarrow> string \<Rightarrow> string list \<Rightarrow> string list" where
  "append_if_set modifiers flag name mod_names =
     (if and modifiers flag \<noteq> 0 then mod_names @ [name] else mod_names)"

definition modifiers_string :: "int \<Rightarrow> string" where
  "modifiers_string modifiers =
     (let mod_names = [];
          mod_names = append_if_set modifiers MOD_SHIFT ''MOD_SHIFT'' mod_names;
          mod_names = append_if_set modifiers MOD_CTRL ''MOD_CTRL'' mod_names;
          mod_names = append_if_set modifiers MOD_ALT ''MOD_ALT'' mod_names;
          mod_names = append_if_set modifiers MOD_CAPSLOCK ''MOD_CAPSLOCK'' mod_names;
          mod_names = append_if_set modifiers MOD_NUMLOCK ''MOD_NUMLOCK'' mod_names;
          mod_names = append_if_set modifiers MOD_SCROLLLOCK ''MOD_SCROLLLOCK'' mod_names;
          mod_names = append_if_set modifiers MOD_COMMAND ''MOD_COMMAND'' mod_names;
          mod_names = append_if_set modifiers MOD_OPTION ''MOD_OPTION'' mod_names;
          mod_names = append_if_set modifiers MOD_FUNCTION ''MOD_FUNCTION'' mod_names
      in join ''|'' mod_names)"

subsection \<open>Rendering a mask in the words of the specification\<close>

text \<open>The names of the flags of \<open>table\<close> that are set in \<open>m\<close>, in the order of the
  table, joined by \<open>|\<close>.\<close>

definition render_flags :: "(int \<times> string) list \<Rightarrow> int \<Rightarrow> string" where
  "render_flags table m = join ''|'' (map snd (filter (\<lambda>(flag, name). and m flag \<noteq> 0) table))"

text \<open>The modifier constants in the order of their declaration.\<close>

definition declared_modifiers :: "(int \<times> string) list" where
  "declared_modifiers =
     [(MOD_SHIFT, ''MOD_SHIFT''), (MOD_CTRL, ''MOD_CTRL''), (MOD_ALT, ''MOD_ALT''),
      (MOD_CAPSLOCK, ''MOD_CAPSLOCK''), (MOD_NUMLOCK, ''MOD_NUMLOCK''),
      (MOD_WINDOWS, ''MOD_WINDOWS''), (MOD_COMMAND, ''MOD_COMMAND''),
      (MOD_OPTION, ''MOD_OPTION''), (MOD_SCROLLLOCK, ''MOD_SCROLLLOCK''),
      (MOD_FUNCTION, ''MOD_FUNCTION'')]"

text \<open>The same ten constants with \<open>MOD_SCROLLLOCK\<close> moved in front of \<open>MOD_COMMAND\<close>.\<close>

definition tested_modifiers :: "(int \<times> string) list" where
  "tested_modifiers =
     [(MOD_SHIFT, ''MOD_SHIFT''), (MOD_CTRL, ''MOD_CTRL''), (MOD_ALT, ''MOD_ALT''),
      (MOD_CAPSLOCK, ''MOD_CAPSLOCK''), (MOD_NUMLOCK, ''MOD_NUMLOCK''),
      (MOD_WINDOWS, ''MOD_WINDOWS''), (MOD_SCROLLLOCK, ''MOD_SCROLLLOCK''),
      (MOD_COMMAND, ''MOD_COMMAND''), (MOD_OPTION, ''MOD_OPTION''),
      (MOD_FUNCTION, ''MOD_FUNCTION'')]"

section \<open>Module \<open>shapes.rectangle\<close>: \<open>BorderedRectangle\<close>\<close>

text \<open>
  The attributes \<open>_x\<close>, \<open>_y\<close>, \<open>_z\<close>, \<open>_width\<close>, \<open>_height\<close>, \<open>_rotation\<close>, \<open>_border\<close>,
  \<open>_rgba\<close>, \<open>_border_rgba\<close> of the object, and \<open>_num_verts\<close>, \<open>_blend_src\<close>,
  \<open>_blend_dest\<close> set by \<open>ShapeBase.__init__\<close>; the leading underscore is dropped and
  the geometric fields are prefixed with \<open>rect\<close>.
\<close>

record BorderedRectangle =
  rect_x :: real
  rect_y :: real
  rect_z :: real
  rect_width :: real
  rect_height :: real
  rect_rotation :: real
  rect_border :: real
  rgba :: "int \<times> int \<times> int \<times> int"
  border_rgba :: "int \<times> int \<times> int \<times> int"
  num_verts :: nat
  blend_src :: int
  blend_dest :: int

text \<open>\<open>r, g, b, *a = color\<close>: a sequence of fewer than three elements raises
  \<open>ValueError\<close>; everything after the third element goes to the list \<open>a\<close>.\<close>

definition unpack_color :: "int list \<Rightarrow> error + (int \<times> int \<times> int \<times> int list)" where
  "unpack_color color =
     (if length color < 3 then Inl ValueError
      else Inr (color ! 0, color ! 1, color ! 2, drop 3 color))"

text \<open>\<open>ShapeBase.__init__\<close> stores the vertex count and the blend modes, then fetches
  the shader program, builds the group and creates the vertex list. Those three steps
  need an OpenGL context; \<open>gl\<close> is their outcome, \<open>None\<close> when they succeed.\<close>

definition ShapeBase_init ::
  "error option \<Rightarrow> nat \<Rightarrow> int \<Rightarrow> int \<Rightarrow> BorderedRectangle \<Rightarrow> error + BorderedRectangle" where
  "ShapeBase_init gl vertex_count bsrc bdest self =
     (case gl of
        Some e \<Rightarrow> Inl e
      | None \<Rightarrow> Inr (self\<lparr>num_verts := vertex_count, blend_src := bsrc, blend_dest := bdest\<rparr>))"

text \<open>\<open>BorderedRectangle.__init__\<close>.\<close>

definition BorderedRectangle_init ::
  "error option \<Rightarrow> real \<Rightarrow> real \<Rightarrow> real \<Rightarrow> real \<Rightarrow> real \<Rightarrow> int list \<Rightarrow> int list \<Rightarrow> int \<Rightarrow> int
     \<Rightarrow> error + BorderedRectangle" where
  "BorderedRectangle_init gl x y width height border color border_color bsrc bdest =
     (case unpack_color color of
        Inl e \<Rightarrow> Inl e
      | Inr (fill_r, fill_g, fill_b, fill_a) \<Rightarrow>
     (case unpack_color border_color of
        Inl e \<Rightarrow> Inl e
      | Inr (border_r, border_g, border_b, border_a) \<Rightarrow>
          (let alpha = 255
           in if fill_a \<noteq> [] \<and> border_a \<noteq> [] \<and> fill_a ! 0 \<noteq> border_a ! 0
              then Inl ValueError
              else (let alpha = (if fill_a \<noteq> [] then fill_a ! 0
                                 else if border_a \<noteq> [] then border_a ! 0
                                 else alpha)
                    in ShapeBase_init gl 8 bsrc bdest
                         \<lparr>rect_x = x, rect_y = y, rect_z = 0,
                          rect_width = width, rect_height = height,
                          rect_rotation = 0, rect_border = border,
                          rgba = (fill_r, fill_g, fill_b, alpha),
                          border_rgba = (border_r, border_g, border_b, alpha),
                          num_verts = 0, blend_src = bsrc, blend_dest = bdest\<rparr>))))"

text \<open>The alpha component of a colour given as RGBA.\<close>

definition alpha_of :: "int list \<Rightarrow> int" where
  "alpha_of color = color ! 3"

section \<open>Modules \<open>media.drivers.openal\<close> and \<open>media.drivers.pulse\<close>\<close>

text \<open>
  The global state the two modules share: the options mapping \<open>kiglent.options\<close> and the
  module variables \<open>_debug\<close> and \<open>_debug_buffers\<close> of \<open>openal\<close> and \<open>_debug\<close> of
  \<open>pulse\<close>, which the module bodies assign when the modules are imported.
\<close>

record world =
  options :: "string \<rightharpoonup> bool"
  openal_debug :: bool
  openal_debug_buffers :: bool
  pulse_debug :: bool

text \<open>Running the body of module \<open>openal\<close>:
  \<open>_debug = kiglent.options['debug_media']\<close> and
  \<open>_debug_buffers = kiglent.options.get('debug_media_buffers', False)\<close>.\<close>

definition import_openal :: "world \<Rightarrow> error + world" where
  "import_openal w =
     (case options w ''debug_media'' of
        None \<Rightarrow> Inl (KeyError ''debug_media'')
      | Some d \<Rightarrow>
          Inr (w\<lparr>openal_debug := d,
                 openal_debug_buffers :=
                   (case options w ''debug_media_buffers'' of None \<Rightarrow> False | Some b \<Rightarrow> b)\<rparr>))"

text \<open>Running the body of module \<open>pulse\<close>: \<open>_debug = kiglent.options['debug_media']\<close>.\<close>

definition import_pulse :: "world \<Rightarrow> error + world" where
  "import_pulse w =
     (case options w ''debug_media'' of
        None \<Rightarrow> Inl (KeyError ''debug_media'')
      | Some d \<Rightarrow> Inr (w\<lparr>pulse_debug := d\<rparr>))"

text \<open>\<open>kiglent.options[key] = value\<close>, done by the application at any time.\<close>

definition set_option :: "world \<Rightarrow> string \<Rightarrow> bool \<Rightarrow> world" where
  "set_option w key v = w\<lparr>options := (options w)(key \<mapsto> v)\<rparr>"

text \<open>What a factory does besides returning the driver. The driver classes live in the
  \<open>adaptation\<close> modules; a driver is modelled by its device name and by the version
  string its \<open>get_version()\<close> reports.\<close>

datatype effect = Print string | Connect | DumpDebugInfo

record OpenALDriver =
  device_name :: "string option"
  version :: string

definition openal_create_audio_driver ::
  "world \<Rightarrow> string \<Rightarrow> string option \<Rightarrow> effect list \<times> OpenALDriver" where
  "openal_create_audio_driver w al_version dev =
     (let driver = \<lparr>device_name = dev, version = al_version\<rparr>
      in ((if openal_debug w then [Print (''OpenAL '' @ version driver)] else []), driver))"

definition pulse_create_audio_driver :: "world \<Rightarrow> effect list" where
  "pulse_create_audio_driver w =
     [Connect] @ (if pulse_debug w then [DumpDebugInfo] else [])"

text \<open>The debug output of a call: a printed line or the verbose dump.\<close>

fun is_debug_output :: "effect \<Rightarrow> bool" where
  "is_debug_output (Print s) = True"
| "is_debug_output DumpDebugInfo = True"
| "is_debug_output Connect = False"

definition debug_output_produced :: "effect list \<Rightarrow> bool" where
  "debug_output_produced effects = list_ex is_debug_output effects"

text \<open>Whether \<open>debug_media\<close> is enabled in an options mapping.\<close>

definition debug_media_enabled :: "(string \<rightharpoonup> bool) \<Rightarrow> bool" where
  "debug_media_enabled opts = (opts ''debug_media'' = Some True)"

text \<open>The single alpha of a \<open>BorderedRectangle\<close> in the words of the specification: the
  one alpha supplied, or 255 if neither colour has one.\<close>

definition shared_alpha :: "int list \<Rightarrow> int list \<Rightarrow> int" where
  "shared_alpha color border_color =
     (if length color = 4 then alpha_of color
      else if length border_color = 4 then alpha_of border_color
      else 255)"

section \<open>Example objects\<close>

text \<open>A dispatcher with no callable of its own and one downstream \<open>EventHandler\<close> that
  defines no method, and callables that never return a truthy value.\<close>

definition bare_handler :: handler where
  "bare_handler = EventHandler Map.empty"

definition window_with_bare_handler :: handler where
  "window_with_bare_handler = EventDispatcher Map.empty [bare_handler]"

definition never_handled :: "callable \<Rightarrow> bool" where
  "never_handled f = False"

text \<open>A \<open>KeyStateHandler\<close> of module \<open>kiglent.window.key\<close>, an \<open>EventHandler\<close> with the
  methods \<open>on_key_press\<close>, \<open>on_key_release\<close> and \<open>on_deactivate\<close> (callables 1, 2, 3).\<close>

definition KeyStateHandler :: handler where
  "KeyStateHandler = EventHandler [''on_key_press'' \<mapsto> 1, ''on_key_release'' \<mapsto> 2,
                                   ''on_deactivate'' \<mapsto> 3]"

text \<open>A dispatcher with the callables 3, 2, 1 registered for \<open>on_key_press\<close>, 3 last, and a
  downstream \<open>EventHandler\<close> whose method \<open>on_key_press\<close> is callable 7; only callable 2
  returns a truthy value.\<close>

definition key_window :: handler where
  "key_window = EventDispatcher [''on_key_press'' \<mapsto> [3, 2, 1]]
                  [EventHandler [''on_key_press'' \<mapsto> 7]]"

definition second_handles :: "callable \<Rightarrow> bool" where
  "second_handles f = (f = 2)"

text \<open>A matrix that translates by \<open>2^53\<close> along x.\<close>

definition far_translation :: "pyfloat Mat3" where
  "far_translation = Mat3 1 0 0 0 1 0 (Finite 9007199254740992) 0 1"

text \<open>A matrix that scales by 2 and translates by \<open>(1, 1)\<close>, in exact and in float
  components.\<close>

definition scale_and_shift :: "real Mat3" where
  "scale_and_shift = Mat3 2 0 0 0 2 0 1 1 1"

text \<open>The global state of a program that starts with \<open>debug_media\<close> switched off.\<close>

definition quiet_world :: world where
  "quiet_world = \<lparr>options = [''debug_media'' \<mapsto> False],
                   openal_debug = False, openal_debug_buffers = False, pulse_debug = False\<rparr>"

section \<open>Float arithmetic\<close>

lemma pow2_powi: "pow2 q = 2 powi q"
  by (simp add: pow2_def power_int_def inverse_eq_divide power_one_over)

lemma pow2_pos: "0 < pow2 q"
  by (simp add: pow2_powi)

lemma pow2_Suc: "pow2 (q + 1) = 2 * pow2 q"
  by (simp add: pow2_powi power_int_add)

lemma pow2_pred: "pow2 (q - 1) = pow2 q / 2"
  using pow2_Suc[of "q - 1"] by simp

lemma pow2_0: "pow2 0 = 1"
  by (simp add: pow2_def)

lemma pow2_mono: "p \<le> q \<Longrightarrow> pow2 p \<le> pow2 q"
  by (simp add: pow2_powi power_int_increasing)

lemma pow2_less_iff: "pow2 p < pow2 q \<longleftrightarrow> p < q"
proof
  assume "pow2 p < pow2 q"
  then show "p < q" using pow2_mono[of q p] by (cases "p < q") auto
next
  assume "p < q"
  then show "pow2 p < pow2 q" by (simp add: pow2_powi power_int_strict_increasing)
qed

text \<open>With enough fuel the search finds the exponent.\<close>

lemma floor_log2_unique:
  "pow2 e \<le> x \<Longrightarrow> x < pow2 (e + 1) \<Longrightarrow> \<bar>e\<bar> \<le> int fuel \<Longrightarrow> floor_log2 fuel x = e"
proof (induction fuel arbitrary: x e)
  case 0
  then show ?case by simp
next
  case (Suc fuel)
  show ?case
  proof (cases "2 \<le> x")
    case True
    have "pow2 1 < pow2 (e + 1)" using True Suc.prems(2) by (simp add: pow2_def)
    then have e: "1 \<le> e" by (simp add: pow2_less_iff)
    have "floor_log2 fuel (x / 2) = e - 1"
    proof (rule Suc.IH)
      show "pow2 (e - 1) \<le> x / 2" using Suc.prems(1) by (simp add: pow2_pred)
      show "x / 2 < pow2 (e - 1 + 1)" using Suc.prems(2) by (simp add: pow2_Suc)
      show "\<bar>e - 1\<bar> \<le> int fuel" using e Suc.prems(3) by simp
    qed
    then show ?thesis using True by simp
  next
    case False
    show ?thesis
    proof (cases "x < 1")
      case True
      have "pow2 e < pow2 0" using True Suc.prems(1) by (simp add: pow2_0)
      then have e: "e < 0" by (simp add: pow2_less_iff)
      have "floor_log2 fuel (x * 2) = e + 1"
      proof (rule Suc.IH)
        show "pow2 (e + 1) \<le> x * 2" using Suc.prems(1) by (simp add: pow2_Suc)
        show "x * 2 < pow2 (e + 1 + 1)" using Suc.prems(2) pow2_Suc[of "e + 1"] by simp
        show "\<bar>e + 1\<bar> \<le> int fuel" using e Suc.prems(3) by simp
      qed
      then show ?thesis using True False by simp
    next
      case between: False
      have "pow2 e < pow2 1" using False Suc.prems(1) by (simp add: pow2_def)
      then have upper: "e < 1" by (simp add: pow2_less_iff)
      have "pow2 0 < pow2 (e + 1)" using between Suc.prems(2) by (simp add: pow2_0)
      then have "0 < e + 1" by (simp add: pow2_less_iff)
      then have "e = 0" using upper by simp
      then show ?thesis using False between by simp
    qed
  qed
qed

text \<open>Rounding a number whose exponent is known, in the range of the normal doubles.\<close>

lemma round_double_at:
  assumes "pow2 e \<le> \<bar>x\<bar>" and "\<bar>x\<bar> < pow2 (e + 1)" and "- 1022 \<le> e" and "e \<le> 1023"
  shows "round_double x =
     (let r = of_int (round_half_even (\<bar>x\<bar> / pow2 (e - 52))) * pow2 (e - 52)
      in if pow2 1024 \<le> r then (if 0 < x then PosInf else NegInf)
         else Finite (if x < 0 then - r else r))"
proof -
  have lo: "\<not> \<bar>x\<bar> < pow2 (- 1022)"
    using assms(1) pow2_mono[OF assms(3)] by linarith
  have "pow2 (e + 1) \<le> pow2 1024" using assms(4) by (intro pow2_mono) simp
  then have hi: "\<not> pow2 1024 \<le> \<bar>x\<bar>" using assms(2) by linarith
  have ex: "floor_log2 1024 \<bar>x\<bar> = e"
    using assms by (intro floor_log2_unique) auto
  show ?thesis
    unfolding round_double_def Let_def by (simp only: lo hi ex if_False)
qed

lemma round_double_0: "round_double 0 = Finite 0"
  by (simp add: round_double_def round_half_even_def pow2_def)

text \<open>Rounding is symmetric, so the doubles are closed under negation.\<close>

lemma round_double_uminus: "round_double (- x) = - round_double x"
proof (cases "x = 0")
  case True
  then show ?thesis by (simp add: round_double_0)
next
  case False
  define e where "e = (if \<bar>x\<bar> < pow2 (- 1022) then - 1022
               else if pow2 1024 \<le> \<bar>x\<bar> then 1024
               else floor_log2 1024 \<bar>x\<bar>)"
  define r where "r = of_int (round_half_even (\<bar>x\<bar> / pow2 (e - 52))) * pow2 (e - 52)"
  have pos: "round_double x =
      (if pow2 1024 \<le> r then (if 0 < x then PosInf else NegInf)
       else Finite (if x < 0 then - r else r))"
    unfolding round_double_def Let_def e_def r_def by (rule refl)
  have neg: "round_double (- x) =
      (if pow2 1024 \<le> r then (if 0 < - x then PosInf else NegInf)
       else Finite (if - x < 0 then - r else r))"
    unfolding round_double_def Let_def e_def r_def abs_minus_cancel by (rule refl)
  show ?thesis
    unfolding pos neg using False by (cases "0 < x") auto
qed

lemma is_double_uminus: "is_double (- x) \<longleftrightarrow> is_double x"
proof -
  have "round_double (- x) = Finite (- x) \<longleftrightarrow> round_double x = Finite x"
    unfolding round_double_uminus by (cases "round_double x") auto
  then show ?thesis by (simp add: is_double_def)
qed

text \<open>Some doubles.\<close>

lemma is_double_0: "is_double 0"
  by (simp add: is_double_def round_double_0)

lemma is_double_1: "is_double 1"
  unfolding is_double_def
  by (subst round_double_at[of 0]) (simp_all add: pow2_def round_half_even_def)

lemma is_double_2: "is_double 2"
  unfolding is_double_def
  by (subst round_double_at[of 1]) (simp_all add: pow2_def round_half_even_def)

lemma is_double_half: "is_double (1 / 2)"
  unfolding is_double_def
  by (subst round_double_at[of "- 1"]) (simp_all add: pow2_def round_half_even_def)

lemma is_double_three_halves: "is_double (3 / 2)"
  unfolding is_double_def
  by (subst round_double_at[of 0]) (simp_all add: pow2_def round_half_even_def)

text \<open>Around \<open>2^53\<close> the doubles are the even integers above and all integers below:
  \<open>2^53 + 1\<close> lies midway between two doubles and is rounded to \<open>2^53\<close>.\<close>

lemma round_double_2_53: "round_double 9007199254740992 = Finite 9007199254740992"
  by (subst round_double_at[of 53]) (simp_all add: pow2_def round_half_even_def)

lemma round_double_2_53_plus_1: "round_double 9007199254740993 = Finite 9007199254740992"
  by (subst round_double_at[of 53]) (simp_all add: pow2_def round_half_even_def)

lemma round_double_2_53_minus_1: "round_double 9007199254740991 = Finite 9007199254740991"
  by (subst round_double_at[of 52]) (simp_all add: pow2_def round_half_even_def)

text \<open>Adding the float zero changes no float.\<close>

lemma pyfloat_add_zero: "is_pyfloat x \<Longrightarrow> x + 0 = x"
  by (cases x) (simp_all add: zero_pyfloat_def is_double_def)

lemma pyfloat_zero_add: "is_pyfloat x \<Longrightarrow> 0 + x = x"
  by (cases x) (simp_all add: zero_pyfloat_def is_double_def)

lemma float_eq_refl: "float_eq x x \<longleftrightarrow> x \<noteq> NaN"
  by (simp add: float_eq_def)

section \<open>Vector zero identity\<close>

text \<open>In exact arithmetic adding zero returns the vector itself.\<close>

lemma Vec2_add_zero_exact: "Vec2_add (v :: real Vec2) (Scalar 0) = Inr v"
  by (cases v) (simp add: Vec2_add_def)

lemma Vec3_add_zero_exact: "Vec3_add (v :: real Vec3) (Scalar 0) = Inr v"
  by (cases v) (simp add: Vec3_add_def)

lemma Vec4_add_zero_exact: "Vec4_add (v :: real Vec4) (Scalar 0) = Inr v"
  by (cases v) (simp add: Vec4_add_def)

text \<open>With float components the sum has the components \<open>x + 0.0\<close>, which are the
  components of the vector, NaN included.\<close>

lemma Vec2_add_zero_float:
  "list_all is_pyfloat (Vec2_items v) \<Longrightarrow> Vec2_add v (Scalar 0) = Inr v"
  by (cases v) (simp add: Vec2_add_def pyfloat_add_zero)

lemma Vec3_add_zero_float:
  "list_all is_pyfloat (Vec3_items v) \<Longrightarrow> Vec3_add v (Scalar 0) = Inr v"
  by (cases v) (simp add: Vec3_add_def pyfloat_add_zero)

lemma Vec4_add_zero_float:
  "list_all is_pyfloat (Vec4_items v) \<Longrightarrow> Vec4_add v (Scalar 0) = Inr v"
  by (cases v) (simp add: Vec4_add_def pyfloat_zero_add)

lemma Vec2_eq_refl: "NaN \<notin> set (Vec2_items v) \<Longrightarrow> Vec2_eq float_eq v v"
  by (cases v) (auto simp: float_eq_def)

lemma Vec3_eq_refl: "NaN \<notin> set (Vec3_items v) \<Longrightarrow> Vec3_eq float_eq v v"
  by (cases v) (auto simp: float_eq_def)

lemma Vec4_eq_refl: "NaN \<notin> set (Vec4_items v) \<Longrightarrow> Vec4_eq float_eq v v"
  by (cases v) (auto simp: float_eq_def)

text \<open>
  C8, as stated: for every vector \<open>v\<close>, \<open>v + 0 == v\<close> and \<open>0 + v == v\<close>. For the vector
  \<open>Vec2(nan, 1.0)\<close> both sums succeed and return a vector with the components
  \<open>nan\<close> and \<open>1.0\<close>, and that vector does not compare equal to \<open>v\<close>, because NaN is not
  equal to NaN.
\<close>

theorem vector_add_zero_nan_not_equal:
  "Vec2_add (Vec2 NaN 1) (Scalar 0) = Inr (Vec2 NaN 1) \<and>
   int_plus_Vec2 0 (Vec2 NaN 1) = Inr (Vec2 NaN 1) \<and>
   \<not> Vec2_eq float_eq (Vec2 NaN 1) (Vec2 NaN 1)"
proof -
  have one: "round_double 1 = Finite 1"
    using is_double_1 by (simp add: is_double_def)
  show ?thesis
    by (simp add: Vec2_add_def Vec2_radd_def int_plus_Vec2_def float_eq_def
        one_pyfloat_def zero_pyfloat_def one)
qed

text \<open>
  C8, amended: for every vector \<open>v\<close> (\<open>Vec2\<close>, \<open>Vec3\<close> or \<open>Vec4\<close>) none of whose
  components is NaN, adding the integer \<open>0\<close> on either side succeeds and yields a vector
  equal to \<open>v\<close>: \<open>v + 0 == v\<close> and \<open>0 + v == v\<close>.
\<close>

theorem vector_add_zero_identity:
  assumes "ordinary_floats (Vec2_items u)"
    and "ordinary_floats (Vec3_items v)"
    and "ordinary_floats (Vec4_items w)"
  shows
    "(\<exists>r. Vec2_add u (Scalar 0) = Inr r \<and> Vec2_eq float_eq r u) \<and>
     (\<exists>r. int_plus_Vec2 0 u = Inr r \<and> Vec2_eq float_eq r u) \<and>
     (\<exists>r. Vec3_add v (Scalar 0) = Inr r \<and> Vec3_eq float_eq r v) \<and>
     (\<exists>r. int_plus_Vec3 0 v = Inr r \<and> Vec3_eq float_eq r v) \<and>
     (\<exists>r. Vec4_add w (Scalar 0) = Inr r \<and> Vec4_eq float_eq r w) \<and>
     (\<exists>r. int_plus_Vec4 0 w = Inr r \<and> Vec4_eq float_eq r w)"
proof -
  have u: "Vec2_add u (Scalar 0) = Inr u" "Vec2_eq float_eq u u"
    using assms(1) by (simp_all add: ordinary_floats_def Vec2_add_zero_float Vec2_eq_refl)
  have v: "Vec3_add v (Scalar 0) = Inr v" "Vec3_eq float_eq v v"
    using assms(2) by (simp_all add: ordinary_floats_def Vec3_add_zero_float Vec3_eq_refl)
  have w: "Vec4_add w (Scalar 0) = Inr w" "Vec4_eq float_eq w w"
    using assms(3) by (simp_all add: ordinary_floats_def Vec4_add_zero_float Vec4_eq_refl)
  show ?thesis
    by (simp add: u v w int_plus_Vec2_def int_plus_Vec3_def int_plus_Vec4_def
        Vec2_radd_def Vec3_radd_def Vec4_radd_def)
qed

theorem vector_add_zero_identity_witness:
  "ordinary_floats (Vec2_items (Vec2 (Finite (3 / 2)) NegInf)) \<and>
   ordinary_floats (Vec3_items (Vec3 (Finite (1 / 2)) 0 1)) \<and>
   ordinary_floats (Vec4_items (Vec4 (Finite 2) PosInf (Finite (- 2)) 1)) \<and>
   Vec2_add (Vec2 (Finite (3 / 2)) NegInf) (Scalar 0) = Inr (Vec2 (Finite (3 / 2)) NegInf) \<and>
   (\<exists>r. int_plus_Vec2 0 (Vec2 (Finite (3 / 2)) NegInf) = Inr r
        \<and> Vec2_eq float_eq r (Vec2 (Finite (3 / 2)) NegInf)) \<and>
   (\<exists>r. Vec3_add (Vec3 (Finite (1 / 2)) 0 1) (Scalar 0) = Inr r
        \<and> Vec3_eq float_eq r (Vec3 (Finite (1 / 2)) 0 1)) \<and>
   (\<exists>r. int_plus_Vec4 0 (Vec4 (Finite 2) PosInf (Finite (- 2)) 1) = Inr r
        \<and> Vec4_eq float_eq r (Vec4 (Finite 2) PosInf (Finite (- 2)) 1))"
proof -
  have m2: "is_double (- 2)"
    using is_double_2 is_double_uminus[of 2] by simp
  have a: "ordinary_floats (Vec2_items (Vec2 (Finite (3 / 2)) NegInf))"
    by (simp add: ordinary_floats_def is_double_three_halves)
  have b: "ordinary_floats (Vec3_items (Vec3 (Finite (1 / 2)) 0 1))"
    by (simp add: ordinary_floats_def is_double_half is_double_0 is_double_1
        zero_pyfloat_def one_pyfloat_def)
  have c: "ordinary_floats (Vec4_items (Vec4 (Finite 2) PosInf (Finite (- 2)) 1))"
    using m2 by (simp add: ordinary_floats_def is_double_2 is_double_1 one_pyfloat_def)
  have sum: "Vec2_add (Vec2 (Finite (3 / 2)) NegInf) (Scalar 0)
               = Inr (Vec2 (Finite (3 / 2)) NegInf)"
    using a by (simp add: ordinary_floats_def Vec2_add_zero_float)
  show ?thesis
    using a b c sum vector_add_zero_identity[OF a b c] by simp
qed

section \<open>Matrix products with a vector\<close>

lemma Mat_in_globals:
  "''Mat3'' \<in> set matrix_globals" "''Mat4'' \<in> set matrix_globals"
  "''Quaternion'' \<in> set matrix_globals"
  by (simp_all add: matrix_globals_def)

lemma Vec_not_in_globals:
  "''Vec3'' \<notin> set matrix_globals" "''Vec4'' \<notin> set matrix_globals"
  by (simp_all add: matrix_globals_def TYPE_CHECKING_def)

text \<open>In the namespace the module has when it runs, every product of a matrix with a
  vector of the matching size ends in the \<open>NameError\<close> of the handler.\<close>

lemma Mat4_matmul_Vec4_unbound:
  "Mat4_matmul matrix_globals M (Items (Vec4_items v)) = Inl (NameError ''Vec4'')"
  by (cases M; cases v) (simp add: construct_def Vec_not_in_globals)

lemma Mat3_matmul_Vec3_unbound:
  "Mat3_matmul matrix_globals M (Items (Vec3_items v)) = Inl (NameError ''Vec3'')"
  by (cases M; cases v) (simp add: construct_def Vec_not_in_globals)

text \<open>In a namespace that binds \<open>Vec4\<close> the handler yields the column-major
  matrix-vector product, so the dispatch on the arity is what the source attempts.\<close>

lemma Mat4_matmul_Vec4_bound:
  "''Vec4'' \<in> set ns \<Longrightarrow>
   Mat4_matmul ns (Mat4 a11 a12 a13 a14 a21 a22 a23 a24 a31 a32 a33 a34 a41 a42 a43 a44)
     (Items (Vec4_items (Vec4 x y z w))) =
   Inr (ProductVec4 (Vec4 (x * a11 + y * a21 + z * a31 + w * a41)
                          (x * a12 + y * a22 + z * a32 + w * a42)
                          (x * a13 + y * a23 + z * a33 + w * a43)
                          (x * a14 + y * a24 + z * a34 + w * a44)))"
  by (simp add: construct_def)

lemma Mat3_matmul_Vec3_bound:
  "''Vec3'' \<in> set ns \<Longrightarrow>
   Mat3_matmul ns (Mat3 a11 a12 a13 a21 a22 a23 a31 a32 a33) (Items (Vec3_items (Vec3 x y z))) =
   Inr (ProductVec3 (Vec3 (a11 * x + a21 * y + a31 * z)
                          (a12 * x + a22 * y + a32 * z)
                          (a13 * x + a23 * y + a33 * z)))"
  by (simp add: construct_def)

text \<open>
  C1. For every \<open>Mat4\<close> \<open>M\<close> and every \<open>Vec4\<close> \<open>v\<close>, \<open>M @ v\<close> returns a \<open>Vec4\<close>, and
  likewise \<open>Mat3 @ Vec3\<close> returns a \<open>Vec3\<close>. The source does not do so: with the
  identity matrices and the vectors \<open>(1, 2, 3, 4)\<close> and \<open>(1, 2, 3)\<close> the product raises
  \<open>NameError\<close>, because the names \<open>Vec4\<close> and \<open>Vec3\<close> are not bound in module \<open>matrix\<close>.
\<close>

theorem matmul_vector_raises_NameError:
  "Mat4_matmul matrix_globals Mat4_identity (Items (Vec4_items (Vec4 1 2 3 (4 :: real))))
     = Inl (NameError ''Vec4'') \<and>
   Mat3_matmul matrix_globals Mat3_identity (Items (Vec3_items (Vec3 1 2 (3 :: real))))
     = Inl (NameError ''Vec3'')"
  by (simp add: Mat4_identity_def Mat3_identity_def construct_def Vec_not_in_globals)

section \<open>Quaternion product\<close>

lemma Quaternion_matmul_unbound:
  "Quaternion_matmul matrix_globals q1 q2 = Inl (NameError ''Vec3'')"
  by (cases q1; cases q2) (simp add: construct_def Vec_not_in_globals)

text \<open>In a namespace that binds \<open>Vec3\<close> the method yields the Hamilton product.\<close>

lemma Quaternion_matmul_bound:
  "''Vec3'' \<in> set ns \<Longrightarrow> ''Quaternion'' \<in> set ns \<Longrightarrow>
   Quaternion_matmul ns (Quaternion a ux uy uz) (Quaternion b vx vy (vz :: real)) =
   Inr (Quaternion (a * b - (ux * vx + uy * vy + uz * vz))
         (vx * a + ux * b + (uy * vz - uz * vy))
         (vy * a + uy * b + (uz * vx - ux * vz))
         (vz * a + uz * b + (ux * vy - uy * vx)))"
  by (simp add: construct_def Vec3_mul_def Vec3_add_def)

text \<open>
  C2. For every pair of quaternions, \<open>q1 @ q2\<close> returns the Hamilton product. The source
  does not do so: already for the identity quaternion \<open>(1, 0, 0, 0)\<close> multiplied with
  itself the method raises \<open>NameError\<close>, because \<open>Vec3\<close> is not bound in module
  \<open>matrix\<close>.
\<close>

theorem Quaternion_matmul_raises_NameError:
  "Quaternion_matmul matrix_globals (Quaternion 1 0 0 (0 :: real)) (Quaternion 1 0 0 0)
     = Inl (NameError ''Vec3'')"
  by (simp add: construct_def Vec_not_in_globals)

section \<open>Orthogonal projection\<close>

text \<open>
  C3, as stated: \<open>Mat4.orthogonal_projection(-1, 1, -1, 1, -1, 1)\<close> equals \<open>Mat4()\<close>.
  It does not.
\<close>

theorem orthogonal_projection_unit_cube_not_identity:
  "Mat4_orthogonal_projection (- 1) 1 (- 1) 1 (- 1) 1 \<noteq> Inr Mat4_identity"
  by (simp add: Mat4_orthogonal_projection_def py_div_def Mat4_identity_def)

text \<open>
  C3, amended: \<open>Mat4.orthogonal_projection(-1, 1, -1, 1, -1, 1)\<close> equals the identity
  except for the scale of the z axis, which is \<open>2 / -depth = -1\<close>.
\<close>

theorem orthogonal_projection_unit_cube:
  "Mat4_orthogonal_projection (- 1) 1 (- 1) 1 (- 1) 1 =
     Inr (Mat4 1 0 0 0
               0 1 0 0
               0 0 (- 1) 0
               0 0 0 1)"
  by (simp add: Mat4_orthogonal_projection_def py_div_def)

text \<open>The identity is the projection of the cube with the near and far planes
  exchanged.\<close>

lemma orthogonal_projection_identity:
  "Mat4_orthogonal_projection (- 1) 1 (- 1) 1 1 (- 1) = Inr Mat4_identity"
  by (simp add: Mat4_orthogonal_projection_def py_div_def Mat4_identity_def)

section \<open>Matrix inversion\<close>

text \<open>A matrix whose determinant is zero is returned unchanged, with one warning and
  without an exception, by both classes.\<close>

lemma Mat3_invert_singular:
  "Mat3_det M = 0 \<Longrightarrow>
   Mat3_invert ns M = Inr ([''Unable to calculate inverse of singular Matrix''], M)"
  by (cases M) (simp add: Let_def)

lemma Mat4_invert_singular:
  "Mat4_det M = 0 \<Longrightarrow>
   Mat4_invert ns M = Inr ([''Unable to calculate inverse of singular Matrix''], M)"
  by (cases M) (simp add: Let_def)

text \<open>\<open>Mat4.__invert__\<close> returns the inverse of a matrix with a nonzero determinant.\<close>

lemma Mat4_invert_inverse:
  assumes "Mat4_det M \<noteq> 0"
  shows "\<exists>R. Mat4_invert matrix_globals M = Inr ([], R) \<and>
     Mat4_matmul matrix_globals M (Items (Mat4_items R)) = Inr (ProductMat4 Mat4_identity)"
proof (cases M)
  case (Mat4 a11 a12 a13 a14 a21 a22 a23 a24 a31 a32 a33 a34 a41 a42 a43 a44)
  define det where "det = Mat4_det M"
  define r where "r = 1 / det"
  have d: "det \<noteq> 0" using assms det_def by simp
  have dr: "det * r = 1" using d r_def by simp
  note dr' = dr[unfolded det_def Mat4 Mat4_det.simps Let_def]
  show ?thesis
    using d unfolding det_def Mat4
    apply (simp add: construct_def Mat_in_globals Mat4_identity_def Let_def)
    apply (fold Mat4_det.simps[unfolded Let_def,
            of a11 a12 a13 a14 a21 a22 a23 a24 a31 a32 a33 a34 a41 a42 a43 a44])
    apply (fold Mat4 det_def)
    apply (simp add: divide_inverse)
    apply (fold r_def[unfolded divide_inverse mult_1])
    apply (intro conjI; (algebra | (insert dr', algebra)))
    done
qed

text \<open>\<open>Mat3.__invert__\<close> fills the result with the cofactors in the wrong order: what it
  returns for a matrix with a nonzero determinant is the transpose of the inverse.\<close>

lemma Mat3_invert_transposed_inverse:
  assumes "Mat3_det M \<noteq> 0"
  shows "\<exists>R. Mat3_invert matrix_globals M = Inr ([], R) \<and>
     Mat3_matmul matrix_globals M (Items (Mat3_items (Mat3_transposed R)))
       = Inr (ProductMat3 Mat3_identity)"
proof (cases M)
  case (Mat3 a11 a12 a13 a21 a22 a23 a31 a32 a33)
  define det where "det = a11 * (a22 * a33 - a32 * a23) + a21 * (a32 * a13 - a12 * a33)
     + a31 * (a12 * a23 - a22 * a13)"
  define r where "r = 1 / det"
  have d: "det \<noteq> 0" using assms Mat3 det_def by simp
  have dr: "det * r = 1" using d r_def by simp
  have inv: "Mat3_invert matrix_globals M = Inr ([], Mat3
      ((a22 * a33 - a32 * a23) * r) ((a31 * a23 - a21 * a33) * r) ((a21 * a32 - a22 * a31) * r)
      ((a32 * a13 - a12 * a33) * r) ((a11 * a33 - a31 * a13) * r) ((a31 * a12 - a11 * a32) * r)
      ((a12 * a23 - a22 * a13) * r) ((a21 * a13 - a11 * a23) * r) ((a11 * a22 - a21 * a12) * r))"
    using d unfolding Mat3 det_def r_def
    by (simp add: Let_def construct_def Mat_in_globals)
  note dr' = dr[unfolded det_def]
  show ?thesis
    unfolding inv
    apply (simp add: Mat3 construct_def Mat_in_globals Mat3_identity_def Let_def)
    apply (intro conjI; (algebra | (insert dr', algebra)))
    done
qed

text \<open>
  C4. For every \<open>Mat3\<close> or \<open>Mat4\<close> with determinant 0, \<open>~M\<close> warns and returns \<open>M\<close>; for
  every \<open>M\<close> with a nonzero determinant it returns the inverse. The second half fails
  for \<open>Mat3\<close>: the matrix with columns \<open>(1, 0, 0)\<close>, \<open>(0, 1, 0)\<close>, \<open>(2, 3, 1)\<close> has
  determinant 1, its inverse has the third column \<open>(-2, -3, 1)\<close>, and \<open>~M\<close> returns the
  matrix with \<open>-2\<close> and \<open>-3\<close> in the third row instead, whose product with \<open>M\<close> is not the
  identity.
\<close>

theorem Mat3_invert_is_not_inverse:
  "Mat3_det (Mat3 1 0 0 0 1 0 2 3 1) = 1 \<and>
   Mat3_invert matrix_globals (Mat3 1 0 0 0 1 0 2 3 1)
     = Inr ([], Mat3 1 0 (- 2) 0 1 (- 3) 0 0 1) \<and>
   Mat3_matmul matrix_globals (Mat3 1 0 0 0 1 0 2 3 (1 :: real))
       (Items (Mat3_items (Mat3 1 0 (- 2) 0 1 (- 3) 0 0 1)))
     = Inr (ProductMat3 (Mat3 (- 3) (- 6) (- 2) (- 6) (- 8) (- 3) 2 3 1)) \<and>
   Mat3_matmul matrix_globals (Mat3 1 0 0 0 1 0 2 3 (1 :: real))
       (Items (Mat3_items (Mat3 1 0 0 0 1 0 (- 2) (- 3) 1)))
     = Inr (ProductMat3 Mat3_identity)"
  by (simp add: construct_def Mat_in_globals Mat3_identity_def)

section \<open>Mat3 translation\<close>

text \<open>In exact arithmetic the translated column is \<open>a * (-tx) + d * ty + g\<close> in each
  row, and translating back by \<open>(-tx, -ty)\<close> returns the matrix.\<close>

lemma Mat3_translate_explicit:
  "Mat3_translate matrix_globals (Mat3 a b c d e f g h i) tx ty =
     Inr (ProductMat3 (Mat3 a b c d e f
            (a * (- tx) + d * ty + g) (b * (- tx) + e * ty + h) (c * (- tx) + f * ty + (i :: real))))"
  by (simp add: Mat3_translate_def construct_def Mat_in_globals)

lemma Mat3_translate_round_trip_exact:
  "\<exists>m'. Mat3_translate matrix_globals (m :: real Mat3) tx ty = Inr (ProductMat3 m') \<and>
        Mat3_translate matrix_globals m' (- tx) (- ty) = Inr (ProductMat3 m)"
  by (cases m) (simp add: Mat3_translate_explicit algebra_simps)

text \<open>One entry of a product with the translation matrix in float arithmetic: an entry
  of the first two columns is the entry of \<open>m\<close>, an entry of the third column is exact
  under \<open>exact_entry\<close>.\<close>

lemma float_entry_first:
  "is_double a \<Longrightarrow> is_double d \<Longrightarrow> is_double g \<Longrightarrow>
   Finite a * 1 + Finite d * 0 + Finite g * 0 = Finite a"
  by (simp add: one_pyfloat_def zero_pyfloat_def round_double_0 is_double_def)

lemma float_entry_second:
  "is_double a \<Longrightarrow> is_double d \<Longrightarrow> is_double g \<Longrightarrow>
   Finite a * 0 + Finite d * 1 + Finite g * 0 = Finite d"
  by (simp add: one_pyfloat_def zero_pyfloat_def round_double_0 is_double_def)

lemma float_entry_third:
  assumes "exact_entry a d g tx ty" and "is_double g"
  shows "Finite a * Finite (- tx) + Finite d * Finite ty + Finite g * 1
           = Finite (a * (- tx) + d * ty + g)"
proof -
  have p: "round_double (a * (- tx)) = Finite (a * (- tx))"
    and q: "round_double (d * ty) = Finite (d * ty)"
    and pq: "round_double (a * (- tx) + d * ty) = Finite (a * (- tx) + d * ty)"
    and pqg: "round_double (a * (- tx) + d * ty + g) = Finite (a * (- tx) + d * ty + g)"
    using assms(1) by (simp_all add: exact_entry_def is_double_def)
  have g: "round_double (g * 1) = Finite g"
    using assms(2) by (simp add: is_double_def)
  have "Finite a * Finite (- tx) = Finite (a * (- tx))"
    by (simp only: times_pyfloat.simps p)
  moreover have "Finite d * Finite ty = Finite (d * ty)"
    by (simp only: times_pyfloat.simps q)
  moreover have "Finite g * 1 = Finite g"
    by (simp only: one_pyfloat_def times_pyfloat.simps g)
  ultimately show ?thesis
    by (simp only: plus_pyfloat.simps pq pqg)
qed

text \<open>If the translation by \<open>(tx, ty)\<close> is exact, so is the translation back.\<close>

lemma exact_entry_back:
  assumes "exact_entry a d g tx ty" and "is_double g"
  shows "exact_entry a d (a * (- tx) + d * ty + g) (- tx) (- ty)"
proof -
  have p: "is_double (a * (- tx))" and q: "is_double (d * ty)"
    and pq: "is_double (a * (- tx) + d * ty)"
    using assms(1) by (simp_all add: exact_entry_def)
  have "is_double (- (a * (- tx)))" using p by (simp only: is_double_uminus)
  then have p': "is_double (a * (- (- tx)))" by simp
  have "is_double (- (d * ty))" using q by (simp only: is_double_uminus)
  then have q': "is_double (d * (- ty))" by simp
  have "is_double (- (a * (- tx) + d * ty))" using pq by (simp only: is_double_uminus)
  then have pq': "is_double (a * (- (- tx)) + d * (- ty))" by simp
  have "a * (- (- tx)) + d * (- ty) + (a * (- tx) + d * ty + g) = g" by simp
  then have pqg': "is_double (a * (- (- tx)) + d * (- ty) + (a * (- tx) + d * ty + g))"
    using assms(2) by simp
  show ?thesis
    unfolding exact_entry_def using p' q' pq' pqg' by blast
qed

text \<open>The entries of the translated matrix as the source computes them, for any kind of
  number.\<close>

lemma Mat3_translate_entries:
  "Mat3_translate matrix_globals (Mat3 a b c d e f g h i) tx ty =
     Inr (ProductMat3 (Mat3
       (a * 1 + d * 0 + g * 0) (b * 1 + e * 0 + h * 0) (c * 1 + f * 0 + i * 0)
       (a * 0 + d * 1 + g * 0) (b * 0 + e * 1 + h * 0) (c * 0 + f * 1 + i * 0)
       (a * (- tx) + d * ty + g * 1) (b * (- tx) + e * ty + h * 1)
       (c * (- tx) + f * ty + i * 1)))"
  by (simp add: Mat3_translate_def construct_def Mat_in_globals Let_def)

lemma Mat3_translate_float:
  assumes "list_all is_double [a, b, c, d, e, f, g, h, i]"
    and "exact_entry a d g tx ty" and "exact_entry b e h tx ty" and "exact_entry c f i tx ty"
  shows "Mat3_translate matrix_globals (finite_Mat3 (Mat3 a b c d e f g h i)) (Finite tx) (Finite ty)
     = Inr (ProductMat3 (finite_Mat3 (Mat3 a b c d e f
         (a * (- tx) + d * ty + g) (b * (- tx) + e * ty + h) (c * (- tx) + f * ty + i))))"
proof -
  have dbl: "is_double a" "is_double b" "is_double c" "is_double d" "is_double e"
    "is_double f" "is_double g" "is_double h" "is_double i"
    using assms(1) by simp_all
  note third = float_entry_third[OF assms(2) dbl(7)] float_entry_third[OF assms(3) dbl(8)]
    float_entry_third[OF assms(4) dbl(9)]
  note first = float_entry_first[OF dbl(1) dbl(4) dbl(7)] float_entry_first[OF dbl(2) dbl(5) dbl(8)]
    float_entry_first[OF dbl(3) dbl(6) dbl(9)]
  note second = float_entry_second[OF dbl(1) dbl(4) dbl(7)]
    float_entry_second[OF dbl(2) dbl(5) dbl(8)] float_entry_second[OF dbl(3) dbl(6) dbl(9)]
  show ?thesis
    unfolding finite_Mat3_def Mat3.case
    by (simp only: Mat3_translate_entries uminus_pyfloat.simps first second third)
qed

text \<open>
  C10, as stated: for every \<open>m\<close>, \<open>tx\<close>, \<open>ty\<close>, \<open>translate(tx, ty)\<close> followed by
  \<open>translate(-tx, -ty)\<close> returns to \<open>m\<close>. With float components it need not: the
  matrix that translates by \<open>2^53\<close> along x is left unchanged by \<open>translate(-1.0, 0.0)\<close>,
  because \<open>2^53 + 1\<close> is rounded to \<open>2^53\<close>, and \<open>translate(1.0, -0.0)\<close> then moves its
  translation to \<open>2^53 - 1\<close>.
\<close>

theorem Mat3_translate_round_trip_rounds:
  "Mat3_translate matrix_globals far_translation (- 1) 0 = Inr (ProductMat3 far_translation) \<and>
   Mat3_translate matrix_globals far_translation (- (- 1)) (- 0)
     = Inr (ProductMat3 (Mat3 1 0 0 0 1 0 (Finite 9007199254740991) 0 1)) \<and>
   Mat3 1 0 0 0 1 0 (Finite 9007199254740991) 0 1 \<noteq> far_translation"
proof -
  have r1: "round_double 1 = Finite 1" using is_double_1 by (simp add: is_double_def)
  have rm1: "round_double (- 1) = Finite (- 1)"
    using is_double_1 is_double_uminus[of 1] by (simp add: is_double_def)
  show ?thesis
    by (simp add: Mat3_translate_def construct_def Mat_in_globals far_translation_def
        Let_def one_pyfloat_def zero_pyfloat_def round_double_0 r1 rm1
        round_double_2_53 round_double_2_53_plus_1 round_double_2_53_minus_1)
qed

text \<open>The round trip in float arithmetic, when the first translation is exact.\<close>

lemma Mat3_translate_round_trip_float:
  assumes "list_all is_double (Mat3_items m)" and "exact_translation m tx ty"
  shows "\<exists>m'. Mat3_translate matrix_globals (finite_Mat3 m) (Finite tx) (Finite ty)
             = Inr (ProductMat3 m') \<and>
           Mat3_translate matrix_globals m' (- Finite tx) (- Finite ty)
             = Inr (ProductMat3 (finite_Mat3 m))"
proof -
  obtain a b c d e f g h i where m: "m = Mat3 a b c d e f g h i"
    by (cases m)
  have dbl: "list_all is_double [a, b, c, d, e, f, g, h, i]"
    using assms(1) m by simp
  have ex: "exact_entry a d g tx ty" "exact_entry b e h tx ty" "exact_entry c f i tx ty"
    using assms(2) m by (simp_all add: exact_translation_def)
  define g' h' i' where "g' = a * (- tx) + d * ty + g"
    and "h' = b * (- tx) + e * ty + h" and "i' = c * (- tx) + f * ty + i"
  have forth: "Mat3_translate matrix_globals (finite_Mat3 m) (Finite tx) (Finite ty)
      = Inr (ProductMat3 (finite_Mat3 (Mat3 a b c d e f g' h' i')))"
    unfolding m g'_def h'_def i'_def by (rule Mat3_translate_float[OF dbl ex])
  have dbl': "list_all is_double [a, b, c, d, e, f, g', h', i']"
    using dbl ex by (simp add: exact_entry_def g'_def h'_def i'_def)
  have last: "is_double g" "is_double h" "is_double i"
    using dbl by simp_all
  have ex': "exact_entry a d g' (- tx) (- ty)" "exact_entry b e h' (- tx) (- ty)"
    "exact_entry c f i' (- tx) (- ty)"
    unfolding g'_def h'_def i'_def
    by (rule exact_entry_back[OF ex(1) last(1)], rule exact_entry_back[OF ex(2) last(2)],
        rule exact_entry_back[OF ex(3) last(3)])
  have "Mat3_translate matrix_globals (finite_Mat3 (Mat3 a b c d e f g' h' i'))
          (Finite (- tx)) (Finite (- ty))
      = Inr (ProductMat3 (finite_Mat3 (Mat3 a b c d e f
          (a * (- (- tx)) + d * (- ty) + g') (b * (- (- tx)) + e * (- ty) + h')
          (c * (- (- tx)) + f * (- ty) + i'))))"
    by (rule Mat3_translate_float[OF dbl' ex'])
  then have homeward: "Mat3_translate matrix_globals (finite_Mat3 (Mat3 a b c d e f g' h' i'))
          (- Finite tx) (- Finite ty) = Inr (ProductMat3 (finite_Mat3 m))"
    by (simp add: m g'_def h'_def i'_def)
  show ?thesis
    using forth homeward by blast
qed

text \<open>The translation of the identity by finite floats.\<close>

lemma Mat3_translate_identity_float:
  assumes "is_double tx" and "is_double ty"
  shows "Mat3_translate matrix_globals Mat3_identity (Finite tx) (Finite ty)
       = Inr (ProductMat3 (Mat3 1 0 0 0 1 0 (Finite (- tx)) (Finite ty) 1))"
proof -
  have mtx: "is_double (- tx)" using assms(1) by (simp only: is_double_uminus)
  have x: "exact_entry 1 0 0 tx ty"
    using mtx by (simp add: exact_entry_def is_double_0)
  have y: "exact_entry 0 1 0 tx ty"
    using assms(2) by (simp add: exact_entry_def is_double_0)
  have z: "exact_entry 0 0 1 tx ty"
    by (simp add: exact_entry_def is_double_0 is_double_1)
  have "Mat3_translate matrix_globals (finite_Mat3 (Mat3 1 0 0 0 1 0 0 0 1)) (Finite tx) (Finite ty)
     = Inr (ProductMat3 (finite_Mat3 (Mat3 1 0 0 0 1 0
         (1 * (- tx) + 0 * ty + 0) (0 * (- tx) + 1 * ty + 0) (0 * (- tx) + 0 * ty + 1))))"
    by (rule Mat3_translate_float[OF _ x y z]) (simp add: is_double_0 is_double_1)
  then show ?thesis
    by (simp add: finite_Mat3_def Mat3_identity_def one_pyfloat_def zero_pyfloat_def)
qed

text \<open>
  C10, amended: for every \<open>Mat3\<close> \<open>m\<close> and offsets \<open>tx\<close>, \<open>ty\<close>, \<open>m.translate(tx, ty)\<close>
  composes \<open>m\<close> with a matrix whose translation column is \<open>(-tx, ty, 1)\<close>: the x offset
  is negated, the y offset is not, and for finite offsets the x translation applied to
  the identity is the negation of the argument. \<open>translate(tx, ty)\<close> followed by
  \<open>translate(-tx, -ty)\<close> returns to a matrix \<open>m\<close> of finite floats whenever the entries
  \<open>a * (-tx) + d * ty + g\<close> of the translated column are computed without floating
  point rounding.
\<close>

theorem Mat3_translate_negates_x:
  "Mat3_translate matrix_globals M x y
     = Mat3_matmul matrix_globals M (Items [1, 0, 0, 0, 1, 0, - x, y, 1 :: pyfloat]) \<and>
   (is_double tx \<and> is_double ty \<longrightarrow>
      Mat3_translate matrix_globals Mat3_identity (Finite tx) (Finite ty)
        = Inr (ProductMat3 (Mat3 1 0 0 0 1 0 (Finite (- tx)) (Finite ty) 1))) \<and>
   (list_all is_double (Mat3_items m) \<and> exact_translation m tx ty \<longrightarrow>
      (\<exists>m'. Mat3_translate matrix_globals (finite_Mat3 m) (Finite tx) (Finite ty)
              = Inr (ProductMat3 m') \<and>
            Mat3_translate matrix_globals m' (- Finite tx) (- Finite ty)
              = Inr (ProductMat3 (finite_Mat3 m))))"
proof (intro conjI impI)
  show "Mat3_translate matrix_globals M x y
     = Mat3_matmul matrix_globals M (Items [1, 0, 0, 0, 1, 0, - x, y, 1])"
    by (simp add: Mat3_translate_def construct_def Mat_in_globals Let_def)
next
  assume "is_double tx \<and> is_double ty"
  then show "Mat3_translate matrix_globals Mat3_identity (Finite tx) (Finite ty)
        = Inr (ProductMat3 (Mat3 1 0 0 0 1 0 (Finite (- tx)) (Finite ty) 1))"
    by (simp add: Mat3_translate_identity_float)
next
  assume "list_all is_double (Mat3_items m) \<and> exact_translation m tx ty"
  then show "\<exists>m'. Mat3_translate matrix_globals (finite_Mat3 m) (Finite tx) (Finite ty)
              = Inr (ProductMat3 m') \<and>
            Mat3_translate matrix_globals m' (- Finite tx) (- Finite ty)
              = Inr (ProductMat3 (finite_Mat3 m))"
    by (intro Mat3_translate_round_trip_float) simp_all
qed

theorem Mat3_translate_negates_x_witness:
  "is_double (1 / 2) \<and>
   list_all is_double (Mat3_items scale_and_shift) \<and>
   exact_translation scale_and_shift (1 / 2) (1 / 2) \<and>
   Mat3_translate matrix_globals Mat3_identity (Finite (1 / 2)) (Finite (1 / 2))
     = Inr (ProductMat3 (Mat3 1 0 0 0 1 0 (Finite (- (1 / 2))) (Finite (1 / 2)) 1)) \<and>
   Mat3_translate matrix_globals (finite_Mat3 scale_and_shift) (Finite (1 / 2)) (Finite (1 / 2))
     = Inr (ProductMat3 (finite_Mat3 (Mat3 2 0 0 0 2 0 0 2 1))) \<and>
   (\<exists>m'. Mat3_translate matrix_globals (finite_Mat3 scale_and_shift)
            (Finite (1 / 2)) (Finite (1 / 2)) = Inr (ProductMat3 m') \<and>
         Mat3_translate matrix_globals m' (- Finite (1 / 2)) (- Finite (1 / 2))
           = Inr (ProductMat3 (finite_Mat3 scale_and_shift)))"
proof -
  have m1: "is_double (- 1)"
    using is_double_1 is_double_uminus[of 1] by simp
  have items: "list_all is_double (Mat3_items scale_and_shift)"
    by (simp add: scale_and_shift_def is_double_0 is_double_1 is_double_2)
  have exact: "exact_translation scale_and_shift (1 / 2) (1 / 2)"
    using m1 by (simp add: exact_translation_def scale_and_shift_def exact_entry_def
        is_double_0 is_double_1 is_double_2)
  have there: "Mat3_translate matrix_globals (finite_Mat3 scale_and_shift)
       (Finite (1 / 2)) (Finite (1 / 2))
     = Inr (ProductMat3 (finite_Mat3 (Mat3 2 0 0 0 2 0 0 2 1)))"
    using Mat3_translate_float[of 2 0 0 0 2 0 1 1 1 "1 / 2" "1 / 2"] items exact
    by (simp add: scale_and_shift_def exact_translation_def)
  note all = Mat3_translate_negates_x
    [where tx = "1 / 2" and ty = "1 / 2" and m = scale_and_shift]
  have identity: "Mat3_translate matrix_globals Mat3_identity (Finite (1 / 2)) (Finite (1 / 2))
     = Inr (ProductMat3 (Mat3 1 0 0 0 1 0 (Finite (- (1 / 2))) (Finite (1 / 2)) 1))"
    using all[THEN conjunct2, THEN conjunct1] is_double_half by blast
  have round_trip: "\<exists>m'. Mat3_translate matrix_globals (finite_Mat3 scale_and_shift)
            (Finite (1 / 2)) (Finite (1 / 2)) = Inr (ProductMat3 m') \<and>
         Mat3_translate matrix_globals m' (- Finite (1 / 2)) (- Finite (1 / 2))
           = Inr (ProductMat3 (finite_Mat3 scale_and_shift))"
    using all[THEN conjunct2, THEN conjunct2] items exact by blast
  show ?thesis
    by (intro conjI is_double_half items exact identity there round_trip)
qed

section \<open>Event dispatch\<close>

text \<open>Trying the local callables first and the remaining candidates afterwards is
  trying all candidates in order.\<close>

lemma try_in_order_local:
  "try_in_order run event (map Some fs @ cs) =
     (case call_functions run fs of
        (calls, True) \<Rightarrow> (calls, Inr True)
      | (calls, False) \<Rightarrow>
          (case try_in_order run event cs of (calls', r) \<Rightarrow> (calls @ calls', r)))"
  by (induction fs) (auto split: prod.splits bool.splits)

lemma try_in_order_append:
  "try_in_order run event (cs @ ds) =
     (case try_in_order run event cs of
        (calls, Inl e) \<Rightarrow> (calls, Inl e)
      | (calls, Inr True) \<Rightarrow> (calls, Inr True)
      | (calls, Inr False) \<Rightarrow>
          (case try_in_order run event ds of (calls', r) \<Rightarrow> (calls @ calls', r)))"
  by (induction run event cs rule: try_in_order.induct)
     (auto split: prod.splits sum.splits bool.splits)

lemma dispatch_handlers_refines:
  assumes "\<And>h. h \<in> set hs \<Longrightarrow>
             dispatch_event run h event = try_in_order run event (dispatch_order h event)"
  shows "dispatch_handlers run hs event = try_in_order run event (dispatch_order_list hs event)"
  using assms
proof (induction hs)
  case Nil
  show ?case by simp
next
  case (Cons h hs)
  have first: "dispatch_event run h event = try_in_order run event (dispatch_order h event)"
    using Cons.prems by simp
  have rest: "dispatch_handlers run hs event
                = try_in_order run event (dispatch_order_list hs event)"
    using Cons by simp
  show ?case
    by (simp add: first rest try_in_order_append)
qed

lemma dispatch_event_refines:
  "dispatch_event run h event = try_in_order run event (dispatch_order h event)"
proof (induction h)
  case (EventDispatcher evs hs)
  have down: "dispatch_handlers run hs event
                = try_in_order run event (dispatch_order_list hs event)"
    using EventDispatcher by (intro dispatch_handlers_refines) simp
  show ?case
  proof (cases "evs event")
    case None
    then show ?thesis by (simp add: down)
  next
    case (Some fs)
    have "dispatch_event run (EventDispatcher evs hs) event =
        (case call_functions run fs of
           (calls, True) \<Rightarrow> (calls, Inr True)
         | (calls, False) \<Rightarrow>
             (case dispatch_handlers run hs event of (calls', r) \<Rightarrow> (calls @ calls', r)))"
      using Some by (cases fs) simp_all
    also have "\<dots> = try_in_order run event (map Some fs @ dispatch_order_list hs event)"
      by (simp only: try_in_order_local down)
    also have "\<dots> = try_in_order run event (dispatch_order (EventDispatcher evs hs) event)"
      using Some by simp
    finally show ?thesis .
  qed
next
  case (EventHandler ms)
  show ?case by (simp split: option.splits)
qed

text \<open>What trying in order means: a handled dispatch ends with the first candidate that
  returned a truthy value; an unhandled one has called every candidate.\<close>

lemma try_in_order_handled:
  "try_in_order run event cs = (calls, Inr True) \<Longrightarrow>
     calls \<noteq> [] \<and> run (last calls) \<and> (\<forall>f \<in> set (butlast calls). \<not> run f) \<and>
     map Some calls = take (length calls) cs"
proof (induction run event cs arbitrary: calls rule: try_in_order.induct)
  case (1 run event)
  then show ?case by simp
next
  case (2 run event cs)
  then show ?case by simp
next
  case (3 run event f cs)
  show ?case
  proof (cases "run f")
    case True
    with 3 show ?thesis by auto
  next
    case False
    obtain calls' r where rec: "try_in_order run event cs = (calls', r)"
      by (cases "try_in_order run event cs")
    with False "3.prems" have c: "calls = f # calls'" and r: "r = Inr True" by auto
    from "3.IH"[OF False] rec r
    have ih: "calls' \<noteq> [] \<and> run (last calls') \<and> (\<forall>f \<in> set (butlast calls'). \<not> run f) \<and>
       map Some calls' = take (length calls') cs" by simp
    then show ?thesis using c False by auto
  qed
qed

lemma try_in_order_unhandled:
  "try_in_order run event cs = (calls, Inr False) \<Longrightarrow>
     map Some calls = cs \<and> (\<forall>f \<in> set calls. \<not> run f)"
proof (induction run event cs arbitrary: calls rule: try_in_order.induct)
  case (1 run event)
  then show ?case by simp
next
  case (2 run event cs)
  then show ?case by simp
next
  case (3 run event f cs)
  show ?case
  proof (cases "run f")
    case True
    with 3 show ?thesis by auto
  next
    case False
    obtain calls' r where rec: "try_in_order run event cs = (calls', r)"
      by (cases "try_in_order run event cs")
    with False "3.prems" have c: "calls = f # calls'" and r: "r = Inr False" by auto
    from "3.IH"[OF False] rec r
    have "map Some calls' = cs \<and> (\<forall>f \<in> set calls'. \<not> run f)" by simp
    then show ?thesis using c False by auto
  qed
qed

text \<open>The scenario of the specification: three callables registered in the order 1, 2,
  3 are tried as 3, 2, 1; callable 2 handles the event, so callable 1 and the downstream
  handler are never invoked.\<close>

lemma dispatch_three_handlers:
  "dispatch_event second_handles key_window ''on_key_press'' = ([3, 2], Inr True)"
  by (simp add: key_window_def second_handles_def)

text \<open>A \<open>KeyStateHandler\<close> defines \<open>on_key_press\<close>, \<open>on_key_release\<close> and
  \<open>on_deactivate\<close> only. Pushed onto a dispatcher, it makes the dispatch of any other
  event that no callable handles raise, while the dispatcher alone reports such an event
  as unhandled.\<close>

lemma dispatch_event_KeyStateHandler_raises:
  "dispatch_event never_handled (EventDispatcher Map.empty [KeyStateHandler]) ''on_draw''
     = ([], Inl (AttributeError ''on_draw''))"
  by (simp add: KeyStateHandler_def)

lemma dispatch_event_unknown_event_unhandled:
  "dispatch_event run (EventDispatcher Map.empty []) event = ([], Inr False)"
  by simp

text \<open>
  C5. For every dispatcher and event name, \<open>dispatch_event\<close> tries the local callables
  and then the downstream handlers, most recent first, stops at the first truthy result,
  and reports unhandled if nothing handles the event. The source breaks the last part: a
  dispatcher with no callable for \<open>on_draw\<close> whose only downstream handler is an
  \<open>EventHandler\<close> without a method \<open>on_draw\<close> does not report unhandled, it raises
  \<open>AttributeError\<close>.
\<close>

theorem dispatch_event_missing_method_raises:
  "dispatch_event never_handled window_with_bare_handler ''on_draw''
     = ([], Inl (AttributeError ''on_draw'')) \<and>
   snd (dispatch_event never_handled window_with_bare_handler ''on_draw'') \<noteq> Inr False"
  by (simp add: window_with_bare_handler_def bare_handler_def)

text \<open>
  What the source does for every dispatcher and event name: it tries the callables
  registered for that name in most-recently-registered-first order, then the downstream
  handlers in most-recently-added-first order; it stops at the first callable returning
  a truthy result and reports handled, and reports unhandled if the candidates are
  exhausted without meeting an \<open>EventHandler\<close> that lacks the method. \<open>add_event\<close> puts
  a callable in front of the callables of its name, \<open>push_handler\<close> puts a handler in
  front of the downstream handlers.
\<close>

lemma dispatch_event_tries_in_order:
  "dispatch_event run h event = try_in_order run event (dispatch_order h event) \<and>
   (\<exists>d. add_event (EventDispatcher evs hs) event func = Inr d \<and>
        dispatch_order d event = Some func # dispatch_order (EventDispatcher evs hs) event) \<and>
   (\<exists>d. push_handler (EventDispatcher evs hs) h' = Inr d \<and>
        dispatch_order d event =
          map Some (case evs event of None \<Rightarrow> [] | Some fs \<Rightarrow> fs)
          @ dispatch_order h' event @ dispatch_order_list hs event)"
  by (simp add: dispatch_event_refines)

section \<open>Modifier names\<close>

lemma append_if_set_filter:
  "append_if_set m flag name (map snd (filter (\<lambda>(f, n). and m f \<noteq> 0) table)) =
   map snd (filter (\<lambda>(f, n). and m f \<noteq> 0) (table @ [(flag, name)]))"
  by (simp add: append_if_set_def)

lemma append_if_set_first:
  "append_if_set m flag name [] = map snd (filter (\<lambda>(f, n). and m f \<noteq> 0) [(flag, name)])"
  by (simp add: append_if_set_def)

text \<open>\<open>modifiers_string\<close> renders the nine flags it tests, in the order it tests them,
  for every mask.\<close>

lemma modifiers_string_renders_nine:
  "modifiers_string m = render_flags
     ([(MOD_SHIFT, ''MOD_SHIFT''), (MOD_CTRL, ''MOD_CTRL''), (MOD_ALT, ''MOD_ALT''),
       (MOD_CAPSLOCK, ''MOD_CAPSLOCK''), (MOD_NUMLOCK, ''MOD_NUMLOCK'')] @
      [(MOD_SCROLLLOCK, ''MOD_SCROLLLOCK''), (MOD_COMMAND, ''MOD_COMMAND''),
       (MOD_OPTION, ''MOD_OPTION''), (MOD_FUNCTION, ''MOD_FUNCTION'')]) m"
  by (simp only: modifiers_string_def render_flags_def Let_def append_if_set_first
        append_if_set_filter append.simps)

lemma render_flags_skip:
  "and m flag = 0 \<Longrightarrow> render_flags (xs @ (flag, name) # ys) m = render_flags (xs @ ys) m"
  by (simp add: render_flags_def)

lemmas MOD_defs =
  MOD_SHIFT_def MOD_CTRL_def MOD_ALT_def MOD_CAPSLOCK_def MOD_NUMLOCK_def
  MOD_WINDOWS_def MOD_COMMAND_def MOD_OPTION_def MOD_SCROLLLOCK_def MOD_FUNCTION_def

text \<open>\<open>MOD_WINDOWS\<close> has no test in \<open>modifiers_string\<close>: the mask \<open>MOD_WINDOWS\<close> renders as
  the empty string.\<close>

lemma modifiers_string_MOD_WINDOWS:
  "modifiers_string MOD_WINDOWS = ''''"
  by (simp add: modifiers_string_renders_nine render_flags_def MOD_defs)

text \<open>
  C6, as stated: for every mask \<open>m\<close>, \<open>modifiers_string(m)\<close> joins the names of the flags
  set in \<open>m\<close> in the order the constants are declared. For
  \<open>MOD_COMMAND | MOD_SCROLLLOCK\<close> the declared order gives \<open>MOD_COMMAND|MOD_SCROLLLOCK\<close>
  and the function returns \<open>MOD_SCROLLLOCK|MOD_COMMAND\<close>.
\<close>

theorem modifiers_string_not_declared_order:
  "modifiers_string (or MOD_COMMAND MOD_SCROLLLOCK) = ''MOD_SCROLLLOCK|MOD_COMMAND'' \<and>
   render_flags declared_modifiers (or MOD_COMMAND MOD_SCROLLLOCK)
     = ''MOD_COMMAND|MOD_SCROLLLOCK'' \<and>
   modifiers_string (or MOD_COMMAND MOD_SCROLLLOCK)
     \<noteq> render_flags declared_modifiers (or MOD_COMMAND MOD_SCROLLLOCK)"
  by (simp add: modifiers_string_renders_nine declared_modifiers_def render_flags_def MOD_defs)

text \<open>
  C6, amended: for every mask \<open>m\<close> in which \<open>MOD_WINDOWS\<close> is not set,
  \<open>modifiers_string(m)\<close> returns the \<open>|\<close>-joined names of exactly the modifier flags set
  in \<open>m\<close>, in the order \<open>MOD_SHIFT\<close>, \<open>MOD_CTRL\<close>, \<open>MOD_ALT\<close>, \<open>MOD_CAPSLOCK\<close>,
  \<open>MOD_NUMLOCK\<close>, \<open>MOD_SCROLLLOCK\<close>, \<open>MOD_COMMAND\<close>, \<open>MOD_OPTION\<close>, \<open>MOD_FUNCTION\<close>: the
  order in which the function tests them, with \<open>MOD_SCROLLLOCK\<close> in front of
  \<open>MOD_COMMAND\<close>.
\<close>

theorem modifiers_string_tested_order:
  "and m MOD_WINDOWS = 0 \<Longrightarrow> modifiers_string m = render_flags tested_modifiers m"
  unfolding modifiers_string_renders_nine tested_modifiers_def
  using render_flags_skip[of m MOD_WINDOWS
          "[(MOD_SHIFT, ''MOD_SHIFT''), (MOD_CTRL, ''MOD_CTRL''), (MOD_ALT, ''MOD_ALT''),
            (MOD_CAPSLOCK, ''MOD_CAPSLOCK''), (MOD_NUMLOCK, ''MOD_NUMLOCK'')]"
          "''MOD_WINDOWS''"]
  by simp

theorem modifiers_string_tested_order_witness:
  "and (or MOD_SHIFT (or MOD_COMMAND MOD_SCROLLLOCK)) MOD_WINDOWS = 0 \<and>
   modifiers_string (or MOD_SHIFT (or MOD_COMMAND MOD_SCROLLLOCK))
     = render_flags tested_modifiers (or MOD_SHIFT (or MOD_COMMAND MOD_SCROLLLOCK)) \<and>
   render_flags tested_modifiers (or MOD_SHIFT (or MOD_COMMAND MOD_SCROLLLOCK))
     = ''MOD_SHIFT|MOD_SCROLLLOCK|MOD_COMMAND''"
proof -
  have clear: "and (or MOD_SHIFT (or MOD_COMMAND MOD_SCROLLLOCK)) MOD_WINDOWS = 0"
    by (simp add: MOD_defs)
  have shown: "render_flags tested_modifiers (or MOD_SHIFT (or MOD_COMMAND MOD_SCROLLLOCK))
     = ''MOD_SHIFT|MOD_SCROLLLOCK|MOD_COMMAND''"
    by (simp add: tested_modifiers_def render_flags_def MOD_defs)
  show ?thesis
    using clear shown modifiers_string_tested_order[OF clear] by simp
qed

section \<open>BorderedRectangle colours\<close>

text \<open>The conflict is found before the base class is initialised, whatever the state of
  the OpenGL context.\<close>

lemma BorderedRectangle_conflict_raises:
  "length color = 4 \<Longrightarrow> length border_color = 4 \<Longrightarrow> alpha_of color \<noteq> alpha_of border_color \<Longrightarrow>
   BorderedRectangle_init gl x y width height border color border_color bsrc bdest
     = Inl ValueError"
  by (simp add: BorderedRectangle_init_def unpack_color_def alpha_of_def)

text \<open>The two constructions of the specification.\<close>

lemma BorderedRectangle_conflicting_example:
  "BorderedRectangle_init None 0 0 10 10 1 [255, 0, 0, 200] [0, 0, 255, 100] 770 771
     = Inl ValueError"
  by (simp add: BorderedRectangle_init_def unpack_color_def)

text \<open>
  C7. Constructing a \<open>BorderedRectangle\<close> from colours of three or four components, with
  the base class initialised successfully, raises \<open>ValueError\<close> if and only if both
  \<open>color\<close> and \<open>border_color\<close> are 4-tuples with differing alpha components; otherwise
  construction succeeds and the fill and border colours share a single alpha (the one
  alpha supplied, or 255 if neither colour has one), stored in both RGBA values.
\<close>

theorem BorderedRectangle_shared_alpha:
  assumes "length color = 3 \<or> length color = 4"
    and "length border_color = 3 \<or> length border_color = 4"
  shows
    "(BorderedRectangle_init None x y width height border color border_color bsrc bdest
        = Inl ValueError
      \<longleftrightarrow> length color = 4 \<and> length border_color = 4
          \<and> alpha_of color \<noteq> alpha_of border_color) \<and>
     (\<not> (length color = 4 \<and> length border_color = 4
          \<and> alpha_of color \<noteq> alpha_of border_color) \<longrightarrow>
      (\<exists>r. BorderedRectangle_init None x y width height border color border_color bsrc bdest
              = Inr r \<and>
           rgba r = (color ! 0, color ! 1, color ! 2, shared_alpha color border_color) \<and>
           border_rgba r = (border_color ! 0, border_color ! 1, border_color ! 2,
                            shared_alpha color border_color)))"
  using assms
  by (auto simp: BorderedRectangle_init_def unpack_color_def alpha_of_def shared_alpha_def
        ShapeBase_init_def Let_def)

theorem BorderedRectangle_shared_alpha_witness:
  "(length [255, 0, 0 :: int] = 3 \<or> length [255, 0, 0 :: int] = 4) \<and>
   (length [0, 0, 255, 100 :: int] = 3 \<or> length [0, 0, 255, 100 :: int] = 4) \<and>
   \<not> (length [255, 0, 0 :: int] = 4 \<and> length [0, 0, 255, 100 :: int] = 4
       \<and> alpha_of [255, 0, 0] \<noteq> alpha_of [0, 0, 255, 100]) \<and>
   BorderedRectangle_init None 0 0 10 10 1 [255, 0, 0] [0, 0, 255, 100] 770 771
     \<noteq> Inl ValueError \<and>
   (\<exists>r. BorderedRectangle_init None 0 0 10 10 1 [255, 0, 0] [0, 0, 255, 100] 770 771 = Inr r \<and>
        rgba r = (255, 0, 0, 100) \<and> border_rgba r = (0, 0, 255, 100))"
proof -
  have l1: "length [255, 0, 0 :: int] = 3 \<or> length [255, 0, 0 :: int] = 4" by simp
  have l2: "length [0, 0, 255, 100 :: int] = 3 \<or> length [0, 0, 255, 100 :: int] = 4" by simp
  show ?thesis
    using BorderedRectangle_shared_alpha[OF l1 l2, of 0 0 10 10 1 770 771]
    by (simp add: shared_alpha_def alpha_of_def)
qed

section \<open>Audio driver factories\<close>

text \<open>
  C9, as stated: for every call of \<open>create_audio_driver\<close>, the debug output is produced if
  and only if \<open>debug_media\<close> is enabled at that call. When the module is imported with the
  flag off and the flag is switched on before the call, the flag is enabled at the call
  and no debug output is produced, by either factory.
\<close>

theorem create_audio_driver_ignores_flag_at_call:
  "import_openal quiet_world = Inr quiet_world \<and>
   import_pulse quiet_world = Inr quiet_world \<and>
   debug_media_enabled (options (set_option quiet_world ''debug_media'' True)) \<and>
   \<not> debug_output_produced
       (fst (openal_create_audio_driver (set_option quiet_world ''debug_media'' True)
              ''1.1'' None)) \<and>
   \<not> debug_output_produced
       (pulse_create_audio_driver (set_option quiet_world ''debug_media'' True))"
  by (simp add: import_openal_def import_pulse_def quiet_world_def set_option_def
        debug_media_enabled_def debug_output_produced_def
        openal_create_audio_driver_def pulse_create_audio_driver_def)

text \<open>
  C9, amended: the OpenAL and PulseAudio factories use the value the \<open>debug_media\<close> flag
  of the global options mapping had when their module was imported: for every call,
  the debug output (version print, verbose dump) is produced if and only if
  \<open>debug_media\<close> was enabled at the import, whatever the options mapping holds at the
  call.
\<close>

theorem create_audio_driver_uses_flag_at_import:
  "(import_openal w = Inr w' \<longrightarrow>
      debug_output_produced (fst (openal_create_audio_driver (w'\<lparr>options := opts\<rparr>) v dev))
        = debug_media_enabled (options w)) \<and>
   (import_pulse w = Inr w'' \<longrightarrow>
      debug_output_produced (pulse_create_audio_driver (w''\<lparr>options := opts\<rparr>))
        = debug_media_enabled (options w))"
  by (auto simp: import_openal_def import_pulse_def debug_media_enabled_def
        debug_output_produced_def openal_create_audio_driver_def pulse_create_audio_driver_def
        Let_def split: option.splits if_splits)

theorem create_audio_driver_uses_flag_at_import_witness:
  "import_openal quiet_world = Inr quiet_world \<and>
   import_pulse quiet_world = Inr quiet_world \<and>
   debug_output_produced
     (fst (openal_create_audio_driver
            (quiet_world\<lparr>options := [''debug_media'' \<mapsto> True]\<rparr>) ''1.1'' None))
     = debug_media_enabled (options quiet_world) \<and>
   debug_output_produced
     (pulse_create_audio_driver (quiet_world\<lparr>options := [''debug_media'' \<mapsto> True]\<rparr>))
     = debug_media_enabled (options quiet_world) \<and>
   \<not> debug_media_enabled (options quiet_world)"
proof -
  have io: "import_openal quiet_world = Inr quiet_world"
    by (simp add: import_openal_def quiet_world_def)
  have ip: "import_pulse quiet_world = Inr quiet_world"
    by (simp add: import_pulse_def quiet_world_def)
  have off: "\<not> debug_media_enabled (options quiet_world)"
    by (simp add: debug_media_enabled_def quiet_world_def)
  show ?thesis
    using io ip off
      create_audio_driver_uses_flag_at_import
        [of quiet_world quiet_world "[''debug_media'' \<mapsto> True]" "''1.1''" None quiet_world]
    by simp
qed

end
